theory Spec2Isabelle
  imports Main
begin

chapter \<open>The extraction engine of Nizo: definitions\<close>

text \<open>
  A model of \<^verbatim>\<open>src/content.ts\<close>, the content script that reads triage data from an issue or
  replay page: the pattern extractors and the text strategies with their regular
  expressions, the merge of extracted rows, the page context, replay resolution with its
  polling loops, and the five action handlers with the listener that answers the popup.
  Functions keep the names they have in the source. The first part holds the definitions,
  the second the properties proved of them.
\<close>

section \<open>JavaScript strings\<close>

text \<open>
  A JavaScript string is modelled as a list of 8-bit characters: the texts the claims are
  about are ASCII. Case mapping and the classes \<open>\\d\<close>, \<open>\\w\<close>, \<open>\\s\<close> are the
  ECMAScript ones restricted to that range (\<open>\\s\<close> also holds the no-break space 160).
\<close>

definition code_unit :: "char \<Rightarrow> nat" where
  "code_unit c = of_char c"

definition isDigit :: "char \<Rightarrow> bool" where
  "isDigit c = (48 \<le> code_unit c \<and> code_unit c \<le> 57)"

definition isUpper :: "char \<Rightarrow> bool" where
  "isUpper c = (65 \<le> code_unit c \<and> code_unit c \<le> 90)"

definition isLower :: "char \<Rightarrow> bool" where
  "isLower c = (97 \<le> code_unit c \<and> code_unit c \<le> 122)"

definition isWordChar :: "char \<Rightarrow> bool" where
  "isWordChar c = (isDigit c \<or> isUpper c \<or> isLower c \<or> c = CHR ''_'')"

definition isSpace :: "char \<Rightarrow> bool" where
  "isSpace c = (code_unit c \<in> {9, 10, 11, 12, 13, 32, 160})"

definition isLineTerminator :: "char \<Rightarrow> bool" where
  "isLineTerminator c = (code_unit c = 10 \<or> code_unit c = 13)"

definition lowerChar :: "char \<Rightarrow> char" where
  "lowerChar c = (if isUpper c then char_of (code_unit c + 32) else c)"

definition upperChar :: "char \<Rightarrow> char" where
  "upperChar c = (if isLower c then char_of (code_unit c - 32) else c)"

definition toLowerCase :: "string \<Rightarrow> string" where
  "toLowerCase s = map lowerChar s"

definition toUpperCase :: "string \<Rightarrow> string" where
  "toUpperCase s = map upperChar s"

definition trim :: "string \<Rightarrow> string" where
  "trim s = rev (dropWhile isSpace (rev (dropWhile isSpace s)))"

fun startsWith :: "string \<Rightarrow> string \<Rightarrow> bool" where
  "startsWith s [] = True"
| "startsWith [] (p # ps) = False"
| "startsWith (c # cs) (p # ps) = (c = p \<and> startsWith cs ps)"

fun includesStr :: "string \<Rightarrow> string \<Rightarrow> bool" where
  "includesStr [] sub = (sub = [])"
| "includesStr (c # cs) sub = (startsWith (c # cs) sub \<or> includesStr cs sub)"

fun splitOn :: "char \<Rightarrow> string \<Rightarrow> string list" where
  "splitOn d [] = [[]]"
| "splitOn d (c # cs) =
     (if c = d then [] # splitOn d cs
      else (case splitOn d cs of [] \<Rightarrow> [[c]] | w # ws \<Rightarrow> (c # w) # ws))"

fun joinWith :: "string \<Rightarrow> string list \<Rightarrow> string" where
  "joinWith sep [] = []"
| "joinWith sep [x] = x"
| "joinWith sep (x # y # ys) = x @ sep @ joinWith sep (y # ys)"

section \<open>Regular expressions\<close>

text \<open>
  The patterns of \<^verbatim>\<open>content.ts\<close> are written as values of \<open>re\<close>, one constructor per
  piece of syntax. \<open>runRe\<close> is the ECMAScript backtracking matcher: from one matcher state
  (previous character, rest of the input, captures so far) it returns every way to match, in
  the order a backtracking engine tries them, so the head of the list is the match the
  engine reports. \<open>Rep r lo hi greedy\<close> is \<open>r{lo,hi}\<close> (\<open>hi = None\<close>: unbounded), greedy or
  lazy. Every iteration has to consume input; ECMAScript asks this of the optional
  iterations only, and the repeated parts of the patterns below (character classes, or a
  group that starts with a character) cannot match the empty text. Captures are those of
  the path that matched; a group that took no part has none.
\<close>

datatype cls = One char | Range char char | DigitC | SpaceC | NonSpaceC | WordC

datatype re =
    Lit char
  | Dot
  | Set "cls list"
  | NSet "cls list"
  | Eps
  | Cat re re
  | Alt re re
  | Rep re nat "nat option" bool
  | Grp nat re
  | Bol
  | Eol
  | WordB

fun inCls :: "char \<Rightarrow> cls \<Rightarrow> bool" where
  "inCls c (One d) = (c = d)"
| "inCls c (Range a b) = (code_unit a \<le> code_unit c \<and> code_unit c \<le> code_unit b)"
| "inCls c DigitC = isDigit c"
| "inCls c SpaceC = isSpace c"
| "inCls c NonSpaceC = (\<not> isSpace c)"
| "inCls c WordC = isWordChar c"

definition inSet :: "bool \<Rightarrow> cls list \<Rightarrow> char \<Rightarrow> bool" where
  "inSet icase cs c =
     (if icase then (\<exists>k \<in> set cs. inCls c k \<or> inCls (lowerChar c) k \<or> inCls (upperChar c) k)
      else (\<exists>k \<in> set cs. inCls c k))"

type_synonym captures = "(nat \<times> string) list"
type_synonym mstate = "char option \<times> string \<times> captures"

definition step1 :: "(char \<Rightarrow> bool) \<Rightarrow> mstate \<Rightarrow> mstate list" where
  "step1 P st = (case st of (prev, rest, caps) \<Rightarrow>
     (case rest of [] \<Rightarrow> [] | c # cs \<Rightarrow> if P c then [(Some c, cs, caps)] else []))"

definition atWordB :: "mstate \<Rightarrow> bool" where
  "atWordB st = (case st of (prev, rest, caps) \<Rightarrow>
     (case prev of None \<Rightarrow> False | Some p \<Rightarrow> isWordChar p)
       \<noteq> (case rest of [] \<Rightarrow> False | c # cs \<Rightarrow> isWordChar c))"

fun iter :: "(mstate \<Rightarrow> mstate list) \<Rightarrow> nat \<Rightarrow> nat \<Rightarrow> nat option \<Rightarrow> bool \<Rightarrow> mstate \<Rightarrow> mstate list" where
  "iter f 0 lo hi greedy st = (if lo = 0 then [st] else [])"
| "iter f (Suc fuel) lo hi greedy st =
     (if hi = Some 0 then (if lo = 0 then [st] else [])
      else
        let more = concat (map (iter f fuel (lo - 1) (map_option (\<lambda>h. h - 1) hi) greedy)
                     (filter (\<lambda>st'. length (fst (snd st')) < length (fst (snd st))) (f st)))
        in if 0 < lo then more
           else if greedy then more @ [st]
           else st # more)"

primrec runRe :: "bool \<Rightarrow> re \<Rightarrow> mstate \<Rightarrow> mstate list" where
  "runRe icase (Lit c) = step1 (\<lambda>d. if icase then lowerChar d = lowerChar c else d = c)"
| "runRe icase Dot = step1 (\<lambda>d. \<not> isLineTerminator d)"
| "runRe icase (Set cs) = step1 (inSet icase cs)"
| "runRe icase (NSet cs) = step1 (\<lambda>d. \<not> inSet icase cs d)"
| "runRe icase Eps = (\<lambda>st. [st])"
| "runRe icase (Cat r1 r2) = (\<lambda>st. concat (map (runRe icase r2) (runRe icase r1 st)))"
| "runRe icase (Alt r1 r2) = (\<lambda>st. runRe icase r1 st @ runRe icase r2 st)"
| "runRe icase (Rep r lo hi greedy) =
     (\<lambda>st. iter (runRe icase r) (length (fst (snd st))) lo hi greedy st)"
| "runRe icase (Grp n r) =
     (\<lambda>st. map (\<lambda>st'. (fst st', fst (snd st'),
                  (n, take (length (fst (snd st)) - length (fst (snd st'))) (fst (snd st)))
                    # snd (snd st')))
              (runRe icase r st))"
| "runRe icase Bol = (\<lambda>st. if fst st = None then [st] else [])"
| "runRe icase Eol = (\<lambda>st. if fst (snd st) = [] then [st] else [])"
| "runRe icase WordB = (\<lambda>st. if atWordB st then [st] else [])"

record rmatch =
  m_index :: nat
  m_text :: string
  m_groups :: captures

definition execAt :: "bool \<Rightarrow> re \<Rightarrow> nat \<Rightarrow> char option \<Rightarrow> string \<Rightarrow> rmatch option" where
  "execAt icase r k prev s =
     (case runRe icase r (prev, s, []) of
        [] \<Rightarrow> None
      | st # _ \<Rightarrow> Some \<lparr> m_index = k, m_text = take (length s - length (fst (snd st))) s,
                         m_groups = snd (snd st) \<rparr>)"

fun scanFrom :: "bool \<Rightarrow> re \<Rightarrow> nat \<Rightarrow> char option \<Rightarrow> string \<Rightarrow> rmatch option" where
  "scanFrom icase r k prev [] = execAt icase r k prev []"
| "scanFrom icase r k prev (c # cs) =
     (case execAt icase r k prev (c # cs) of
        Some mt \<Rightarrow> Some mt
      | None \<Rightarrow> scanFrom icase r (Suc k) (Some c) cs)"

definition reMatch :: "bool \<Rightarrow> re \<Rightarrow> string \<Rightarrow> rmatch option" where
  "reMatch icase r s = scanFrom icase r 0 None s"

definition reTest :: "bool \<Rightarrow> re \<Rightarrow> string \<Rightarrow> bool" where
  "reTest icase r s = (reMatch icase r s \<noteq> None)"

definition group :: "rmatch \<Rightarrow> nat \<Rightarrow> string option" where
  "group mt n = map_of (m_groups mt) n"

fun allFrom :: "nat \<Rightarrow> bool \<Rightarrow> re \<Rightarrow> nat \<Rightarrow> char option \<Rightarrow> string \<Rightarrow> rmatch list" where
  "allFrom 0 icase r k prev s = []"
| "allFrom (Suc fuel) icase r k prev s =
     (case scanFrom icase r k prev s of
        None \<Rightarrow> []
      | Some mt \<Rightarrow>
          (let off = m_index mt - k + length (m_text mt);
               adv = (if m_text mt = [] then Suc off else off)
           in if length s < adv then [mt]
              else mt # allFrom fuel icase r (k + adv)
                          (if adv = 0 then prev else Some (s ! (adv - 1))) (drop adv s)))"

definition matchAll :: "bool \<Rightarrow> re \<Rightarrow> string \<Rightarrow> rmatch list" where
  "matchAll icase r s = allFrom (Suc (length s)) icase r 0 None s"

definition cat :: "re list \<Rightarrow> re" where
  "cat rs = foldr Cat rs Eps"

definition str :: "string \<Rightarrow> re" where
  "str s = cat (map Lit s)"

fun alts :: "re list \<Rightarrow> re" where
  "alts [] = Eps"
| "alts [r] = r"
| "alts (r # rs) = Alt r (alts rs)"

definition rPlus :: "re \<Rightarrow> re" where "rPlus r = Rep r 1 None True"
definition rStar :: "re \<Rightarrow> re" where "rStar r = Rep r 0 None True"
definition rOpt :: "re \<Rightarrow> re" where "rOpt r = Rep r 0 (Some 1) True"
definition rPlusLazy :: "re \<Rightarrow> re" where "rPlusLazy r = Rep r 1 None False"
definition rTimes :: "re \<Rightarrow> nat \<Rightarrow> nat \<Rightarrow> re" where "rTimes r lo hi = Rep r lo (Some hi) True"



definition replaceAll :: "bool \<Rightarrow> re \<Rightarrow> string \<Rightarrow> string \<Rightarrow> string" where
  \<comment> \<open>\<open>s.replace(/r/g, by)\<close> for a replacement text without \<open>$\<close> references\<close>
  "replaceAll icase r by s =
     (let ms = matchAll icase r s;
          step = (\<lambda>mt (pos, acc).
                    (m_index mt + length (m_text mt),
                     acc @ take (m_index mt - pos) (drop pos s) @ by));
          res = foldl (\<lambda>pa mt. step mt pa) (0, []) ms
      in snd res @ drop (fst res) s)"

section \<open>Numbers and truthiness\<close>

fun digitsOf :: "nat \<Rightarrow> string" where
  "digitsOf n = (if n < 10 then [char_of (48 + n)] else digitsOf (n div 10) @ [char_of (48 + n mod 10)])"

definition numberOfDigits :: "string \<Rightarrow> nat" where
  \<comment> \<open>\<open>Number(t)\<close> for a text of decimal digits\<close>
  "numberOfDigits t = foldl (\<lambda>acc c. 10 * acc + (code_unit c - 48)) 0 t"

definition orNull :: "string option \<Rightarrow> string option" where
  \<comment> \<open>\<open>x || null\<close> for \<open>x : string | null | undefined\<close>: the empty text is falsy\<close>
  "orNull x = (case x of None \<Rightarrow> None | Some t \<Rightarrow> if t = [] then None else Some t)"

definition orElse :: "string option \<Rightarrow> string option \<Rightarrow> string option" where
  \<comment> \<open>\<open>x || y\<close> on nullable texts\<close>
  "orElse x y = (case orNull x of None \<Rightarrow> y | Some t \<Rightarrow> Some t)"

definition orEmpty :: "string option \<Rightarrow> string" where
  \<comment> \<open>\<open>String(x || "")\<close>\<close>
  "orEmpty x = (case x of None \<Rightarrow> [] | Some t \<Rightarrow> t)"

definition truthy :: "string option \<Rightarrow> bool" where
  "truthy x = (orNull x \<noteq> None)"

section \<open>Pattern extractors\<close>

definition normalizeText :: "string \<Rightarrow> string" where
  "normalizeText v = trim (replaceAll False (rPlus (Set [SpaceC])) '' '' v)"

definition hexClass :: "cls list" where
  "hexClass = [Range CHR ''a'' CHR ''f'', Range CHR ''0'' CHR ''9'']"

definition extractEventId :: "string \<Rightarrow> string option" where
  \<comment> \<open>\<^verbatim>\<open>/\b[a-f0-9]{8,32}\b/i\<close>\<close>
  "extractEventId t =
     map_option m_text (reMatch True (cat [WordB, rTimes (Set hexClass) 8 32, WordB]) t)"

definition extractIssueKey :: "string \<Rightarrow> string option" where
  \<comment> \<open>\<^verbatim>\<open>/\b[A-Z][A-Z0-9_-]+-[A-Z0-9]{2,}\b/\<close>\<close>
  "extractIssueKey t =
     map_option m_text (reMatch False
       (cat [WordB, Set [Range CHR ''A'' CHR ''Z''],
             rPlus (Set [Range CHR ''A'' CHR ''Z'', Range CHR ''0'' CHR ''9'', One CHR ''_'', One CHR ''-'']),
             Lit CHR ''-'',
             Rep (Set [Range CHR ''A'' CHR ''Z'', Range CHR ''0'' CHR ''9'']) 2 None True,
             WordB]) t)"

definition rxTimestamp :: re where
  \<comment> \<open>\<^verbatim>\<open>\b\d{1,2}:\d{2}\b\<close>\<close>
  "rxTimestamp = cat [WordB, rTimes (Set [DigitC]) 1 2, Lit CHR '':'', rTimes (Set [DigitC]) 2 2, WordB]"

definition extractTimestamp :: "string \<Rightarrow> string option" where
  "extractTimestamp t = map_option m_text (reMatch False rxTimestamp t)"

definition rxMethodNames :: re where
  \<comment> \<open>\<^verbatim>\<open>GET|POST|PUT|PATCH|DELETE|OPTIONS|HEAD\<close>\<close>
  "rxMethodNames = alts [str ''GET'', str ''POST'', str ''PUT'', str ''PATCH'',
      str ''DELETE'', str ''OPTIONS'', str ''HEAD'']"

definition extractHttpMethod :: "string \<Rightarrow> string option" where
  \<comment> \<open>\<^verbatim>\<open>/\b(GET|POST|PUT|PATCH|DELETE|OPTIONS|HEAD)\b/i\<close>, then \<open>match[1].toUpperCase()\<close>\<close>
  "extractHttpMethod t =
     (case reMatch True (cat [WordB, Grp 1 rxMethodNames, WordB]) t of
        None \<Rightarrow> None
      | Some mt \<Rightarrow> map_option toUpperCase (group mt 1))"

definition rxStatus :: re where
  \<comment> \<open>\<^verbatim>\<open>[1-5]\d{2}\<close>\<close>
  "rxStatus = cat [Set [Range CHR ''1'' CHR ''5''], rTimes (Set [DigitC]) 2 2]"

definition extractStatusCode :: "string \<Rightarrow> nat option" where
  \<comment> \<open>\<^verbatim>\<open>/\b([1-5]\d{2})\b/\<close>, then \<open>Number(match[1])\<close>\<close>
  "extractStatusCode t =
     (case reMatch False (cat [WordB, Grp 1 rxStatus, WordB]) t of
        None \<Rightarrow> None
      | Some mt \<Rightarrow> map_option numberOfDigits (group mt 1))"

definition rxDecimal :: re where
  \<comment> \<open>\<^verbatim>\<open>\d+(?:\.\d+)?\<close>\<close>
  "rxDecimal = cat [rPlus (Set [DigitC]), rOpt (cat [Lit CHR ''.'', rPlus (Set [DigitC])])]"

definition extractDuration :: "string \<Rightarrow> string option" where
  \<comment> \<open>\<^verbatim>\<open>/\b\d+(?:\.\d+)?\s?(?:ms|s)\b/gi\<close>; the last match\<close>
  "extractDuration t =
     (let matches = matchAll True
            (cat [WordB, rxDecimal, rOpt (Set [SpaceC]), alts [str ''ms'', str ''s''], WordB]) t
      in if matches = [] then None else Some (m_text (last matches)))"

definition hostLabel :: re where
  \<comment> \<open>\<^verbatim>\<open>[a-z0-9-]+\<close>\<close>
  "hostLabel = rPlus (Set [Range CHR ''a'' CHR ''z'', Range CHR ''0'' CHR ''9'', One CHR ''-''])"

definition extractHost :: "string \<Rightarrow> string option" where
  \<comment> \<open>\<^verbatim>\<open>/\b([a-z0-9-]+(?:\.[a-z0-9-]+)+)\b/i\<close>\<close>
  "extractHost t =
     (case reMatch True
             (cat [WordB, Grp 1 (cat [hostLabel, rPlus (cat [Lit CHR ''.'', hostLabel])]), WordB]) t of
        None \<Rightarrow> None
      | Some mt \<Rightarrow> group mt 1)"

definition rxRawUrl :: re where
  \<comment> \<open>\<^verbatim>\<open>https?:\/\/[^\s]+\<close>\<close>
  "rxRawUrl = cat [str ''http'', rOpt (Lit CHR ''s''), str ''://'', rPlus (NSet [SpaceC])]"


section \<open>Extracted rows and their composite keys\<close>

record error_row =
  eventId :: "string option"
  errorTitle :: "string option"
  issue :: "string option"
  errorTimestamp :: "string option"

record network_row =
  httpMethod :: "string option"
  status :: "nat option"
  host :: "string option"
  requestUrl :: "string option"
  duration :: "string option"
  timestamp :: "string option"
  detailsUrl :: "string option"
  title :: string

definition errorKey :: "error_row \<Rightarrow> string" where
  \<comment> \<open>\<^verbatim>\<open>[String(row.eventId || ""), String(row.title || ""), String(row.issue || ""),
      String(row.timestamp || "")].join("|")\<close>\<close>
  "errorKey row = joinWith ''|''
     [orEmpty (eventId row), orEmpty (errorTitle row), orEmpty (issue row),
      orEmpty (errorTimestamp row)]"

definition statusText :: "nat option \<Rightarrow> string" where
  \<comment> \<open>\<open>String(row.status || "")\<close>: \<open>null\<close> and \<open>0\<close> are falsy\<close>
  "statusText st = (case st of None \<Rightarrow> [] | Some n \<Rightarrow> if n = 0 then [] else digitsOf n)"

definition networkKey :: "network_row \<Rightarrow> string" where
  \<comment> \<open>\<^verbatim>\<open>[String(row.method || ""), String(row.status || ""), String(row.host || ""),
      String(row.requestUrl || ""), String(row.timestamp || "")].join("|")\<close>\<close>
  "networkKey row = joinWith ''|''
     [orEmpty (httpMethod row), statusText (status row), orEmpty (host row),
      orEmpty (requestUrl row), orEmpty (timestamp row)]"

text \<open>
  A JavaScript \<open>Map\<close> keeps its entries in insertion order; \<open>set\<close> on a key that is present
  replaces the value where the entry stands, \<open>set\<close> on a new key appends an entry.
\<close>

fun mapSet :: "'k \<Rightarrow> 'v \<Rightarrow> ('k \<times> 'v) list \<Rightarrow> ('k \<times> 'v) list" where
  "mapSet k v [] = [(k, v)]"
| "mapSet k v (e # es) = (if fst e = k then (k, v) # es else e # mapSet k v es)"

definition mapValues :: "('k \<times> 'v) list \<Rightarrow> 'v list" where
  "mapValues es = map snd es"

definition uniqueRows :: "('r \<Rightarrow> string) \<Rightarrow> 'r list \<Rightarrow> 'r list" where
  \<comment> \<open>\<^verbatim>\<open>const unique = new Map(); for (const row of parsed) { unique.set(key(row), row); }
      return Array.from(unique.values());\<close>\<close>
  "uniqueRows key rows = mapValues (foldl (\<lambda>unique row. mapSet (key row) row unique) [] rows)"

section \<open>Network rows from the page text\<close>

definition blockRegex :: re where
  \<comment> \<open>\<^verbatim>\<open>\b(GET|POST|PUT|PATCH|DELETE|OPTIONS|HEAD)\b\s+([1-5]\d{2})\s+(https?:\/\/[^\s]+)[\s\S]{0,80}?(\d+(?:\.\d+)?ms)\<close>\<close>
  "blockRegex = cat [WordB, Grp 1 rxMethodNames, WordB, rPlus (Set [SpaceC]), Grp 2 rxStatus,
     rPlus (Set [SpaceC]), Grp 3 rxRawUrl, Rep (Set [SpaceC, NonSpaceC]) 0 (Some 80) False,
     Grp 4 (cat [rxDecimal, str ''ms''])]"

definition networkRowOfLine :: "(string \<Rightarrow> string option) \<Rightarrow> string \<Rightarrow> network_row option" where
  \<comment> \<open>the body of the loop over the lines; \<open>None\<close> is \<open>continue\<close>\<close>
  "networkRowOfLine hostname line =
     (if \<not> truthy (extractHttpMethod line) then None
      else if extractStatusCode line \<in> {None, Some 0} \<and> \<not> truthy (extractHost line) then None
      else
        let rawUrlMatch = reMatch True rxRawUrl line;
            host' = orElse (extractHost line)
                      (case rawUrlMatch of None \<Rightarrow> None | Some mt \<Rightarrow> hostname (m_text mt))
        in Some \<lparr> httpMethod = orNull (extractHttpMethod line),
                   status = extractStatusCode line,
                   host = orNull host',
                   requestUrl = map_option m_text rawUrlMatch,
                   duration = orNull (extractDuration line),
                   timestamp = orNull (extractTimestamp line),
                   detailsUrl = None,
                   title = line \<rparr>)"

definition networkRowOfBlock :: "(string \<Rightarrow> string option) \<Rightarrow> rmatch \<Rightarrow> network_row" where
  \<comment> \<open>the body of the \<open>blockRegex.exec\<close> loop; groups 1 to 4 take part in every match\<close>
  "networkRowOfBlock hostname mt =
     \<lparr> httpMethod = Some (toUpperCase (orEmpty (group mt 1))),
       status = Some (numberOfDigits (orEmpty (group mt 2))),
       host = (case hostname (orEmpty (group mt 3)) of
                 Some h \<Rightarrow> Some h
               | None \<Rightarrow> extractHost (orEmpty (group mt 3))),
       requestUrl = Some (orEmpty (group mt 3)),
       duration = Some (orEmpty (group mt 4)),
       timestamp = None,
       detailsUrl = None,
       title = toUpperCase (orEmpty (group mt 1)) @ '' '' @ orEmpty (group mt 3) \<rparr>"

definition parseReplayNetworkEventsFromPageText ::
    "(string \<Rightarrow> string option) \<Rightarrow> string \<Rightarrow> network_row list" where
  \<comment> \<open>\<open>hostname u\<close> is \<open>new URL(u).hostname\<close>, \<open>None\<close> when the constructor throws;
      \<open>pageText\<close> is what \<open>getPageText()\<close> returned\<close>
  "parseReplayNetworkEventsFromPageText hostname pageText =
     (let lines = filter (\<lambda>l. l \<noteq> []) (map normalizeText (splitOn (CHR 0x0A) pageText));
          parsed = List.map_filter (networkRowOfLine hostname) lines;
          parsed' = (if parsed = []
                     then map (networkRowOfBlock hostname) (matchAll True blockRegex pageText)
                     else parsed)
      in uniqueRows networkKey parsed')"

definition isNetworkErrorEntry :: "network_row \<Rightarrow> bool" where
  "isNetworkErrorEntry entry =
     (if (case status entry of None \<Rightarrow> False | Some st \<Rightarrow> 400 \<le> st) then True
      else
        let haystack = toLowerCase (title entry) @ '' '' @ toLowerCase (orEmpty (requestUrl entry))
        in includesStr haystack ''error'' \<or> includesStr haystack ''failed''
           \<or> includesStr haystack ''timeout'' \<or> includesStr haystack ''abort''
           \<or> includesStr haystack ''blocked'' \<or> includesStr haystack ''refused''
           \<or> includesStr haystack ''cancel'')"

section \<open>Stack traces from the page text\<close>

definition exactNoise :: "string list" where
  "exactNoise = [''stack trace'', ''most relevant'', ''full stack trace'', ''newest'', ''display'',
     ''unsymbolicated'', ''raw stack trace'', ''in app'']"

definition isStackNoiseLine :: "string \<Rightarrow> bool" where
  "isStackNoiseLine line =
     (let normalized = toLowerCase (trim line)
      in if normalized = [] then True
         else if normalized \<in> set exactNoise then True
         else reTest True
                (cat [Bol, rTimes (Set [DigitC]) 1 2, Lit CHR '':'', rTimes (Set [DigitC]) 2 2,
                      rStar (Set [SpaceC]), Grp 1 (alts [str ''am'', str ''pm'']), Eol])
                normalized)"

record pretty_frame =
  functionName :: string
  fileName :: string
  lineNo :: string
  moduleName :: "string option"

definition rxPrettyFrame :: re where
  \<comment> \<open>\<^verbatim>\<open>^(.+?)\s+in\s+(.+?)\s+at line\s+(\d+)(?:\s+within\s+(.+))?$\<close>\<close>
  "rxPrettyFrame = cat [Bol, Grp 1 (rPlusLazy Dot), rPlus (Set [SpaceC]), str ''in'',
     rPlus (Set [SpaceC]), Grp 2 (rPlusLazy Dot), rPlus (Set [SpaceC]), str ''at line'',
     rPlus (Set [SpaceC]), Grp 3 (rPlus (Set [DigitC])),
     rOpt (cat [rPlus (Set [SpaceC]), str ''within'', rPlus (Set [SpaceC]), Grp 4 (rPlus Dot)]),
     Eol]"

definition parseFrameFromPrettyLine :: "string \<Rightarrow> pretty_frame option" where
  "parseFrameFromPrettyLine line =
     (case reMatch True rxPrettyFrame line of
        None \<Rightarrow> None
      | Some mt \<Rightarrow>
          let file' = trim (orEmpty (group mt 1));
              functionName' = trim (orEmpty (group mt 2));
              lineNo' = trim (orEmpty (group mt 3));
              moduleName' = orNull (map_option trim (group mt 4))
          in if file' = [] \<or> functionName' = [] \<or> lineNo' = [] then None
             else Some \<lparr> functionName = functionName', fileName = file', lineNo = lineNo',
                         moduleName = moduleName' \<rparr>)"

definition formatFrameAsRaw :: "pretty_frame \<Rightarrow> nat \<Rightarrow> string" where
  "formatFrameAsRaw frame index =
     (let location = (case orNull (moduleName frame) of
                        Some mn \<Rightarrow> ''package:'' @ mn @ ''/'' @ fileName frame @ '':'' @ lineNo frame
                      | None \<Rightarrow> fileName frame @ '':'' @ lineNo frame)
      in ''  #'' @ digitsOf index @ ''      '' @ functionName frame @ '' ('' @ location @ '')'')"

fun findIndex :: "('a \<Rightarrow> bool) \<Rightarrow> 'a list \<Rightarrow> nat option" where
  \<comment> \<open>\<open>None\<close> is JavaScript's \<open>-1\<close>\<close>
  "findIndex P [] = None"
| "findIndex P (x # xs) = (if P x then Some 0 else map_option Suc (findIndex P xs))"

definition rxRawFrameStart :: re where
  \<comment> \<open>\<^verbatim>\<open>^#\d+\s+\<close>\<close>
  "rxRawFrameStart = cat [Bol, Lit CHR ''#'', rPlus (Set [DigitC]), rPlus (Set [SpaceC])]"

definition toRawStacktraceFromSection :: "string \<Rightarrow> string option" where
  "toRawStacktraceFromSection sectionText =
     (let lines = filter (\<lambda>line. \<not> isStackNoiseLine line) (map trim (splitOn (CHR 0x0A) sectionText))
      in if lines = [] then None
         else case findIndex (reTest False rxRawFrameStart) lines of
           Some alreadyRawStart \<Rightarrow>
             let head = trim (joinWith '' '' (take alreadyRawStart lines));
                 rawLines = drop alreadyRawStart lines
             in Some (joinWith [CHR 0x0A] (filter (\<lambda>l. l \<noteq> []) (head # rawLines)))
         | None \<Rightarrow>
             let parsedFrames = List.map_filter parseFrameFromPrettyLine lines
             in if parsedFrames = [] then Some (joinWith [CHR 0x0A] (take 220 lines))
                else
                  let beforeFrames =
                        (case findIndex (\<lambda>line. parseFrameFromPrettyLine line \<noteq> None) lines of
                           None \<Rightarrow> []
                         | Some firstFrameLine \<Rightarrow>
                             if 0 < firstFrameLine then take firstFrameLine lines else []);
                      header =
                        (if 2 \<le> length beforeFrames \<and> \<not> includesStr (beforeFrames ! 0) '':''
                         then beforeFrames ! 0 @ '': '' @ beforeFrames ! 1
                         else if 1 \<le> length beforeFrames then beforeFrames ! 0
                         else []);
                      rawFrames = map (\<lambda>(frame, index). formatFrameAsRaw frame index)
                                    (zip parsedFrames [0 ..< length parsedFrames])
                  in Some (joinWith [CHR 0x0A] (filter (\<lambda>l. l \<noteq> []) (header # rawFrames))))"


section \<open>The page as the engine reads it\<close>

text \<open>
  The engine runs inside a browser page. Its DOM-reading functions only query the document
  (\<open>querySelectorAll\<close>, \<open>getAttribute\<close>, \<open>textContent\<close>, \<open>closest\<close>, \<open>matches\<close>); a
  \<open>page\<close> holds what each of them returns on the page as it is at one moment. The page
  changes between two reads only through the effects of the next section. Its \<open>clock\<close> is
  the time in milliseconds the engine has waited so far; the engine does not read it.
\<close>

record tab_element =
  ariaSelected :: "string option"
  dataState :: "string option"
  className :: string

record replay_link =
  linkReplayId :: string
  linkReplayUrl :: string

text \<open>
  The fields of a page, and what they stand for:
  \<^item> \<open>locationPathname\<close>, \<open>locationOrigin\<close>, \<open>locationHref\<close>: \<open>window.location\<close>;
    \<open>historyLength\<close>: \<open>window.history.length\<close>;
  \<^item> \<open>inferredOrganizationSlug\<close>: the result of \<open>inferOrganizationSlugFromDom()\<close>;
  \<^item> \<open>replayInDom\<close>: the replay id and URL that \<open>extractReplayFromDom()\<close> finds;
  \<^item> \<open>replayCtaElements\<close>: the length of \<open>getReplayCtaElements()\<close>;
  \<^item> \<open>pageText\<close>: \<open>getPageText()\<close>; \<open>issueTitleInDom\<close>: \<open>getIssueTitleFromDom()\<close>;
  \<^item> \<open>errorsTabElement\<close>, \<open>networkTabElement\<close>: the elements that
    \<open>getReplayErrorsTabElement()\<close> and \<open>getReplayNetworkTabElement()\<close> return, as the
    attributes \<open>isTabActive\<close> reads;
  \<^item> \<open>errorRowElements\<close>, \<open>errorAnchorRowElements\<close>, \<open>networkRowElements\<close>: the elements
    that \<open>getReplayErrorRows()\<close>, \<open>getReplayErrorRowsFromAnchors()\<close> and
    \<open>getReplayNetworkRows()\<close> return, each as what \<open>parseReplayErrorRow\<close> or
    \<open>parseReplayNetworkRow\<close> makes of it (\<open>None\<close> is \<open>null\<close>);
  \<^item> \<open>errorTextRows\<close>: the result of \<open>parseReplayEventsFromPageText()\<close>;
  \<^item> \<open>eventLinks\<close>, \<open>issueLinks\<close>: the entries of the two objects that
    \<open>collectReplayLinkMaps\<close> returns;
  \<^item> \<open>errorCountInDom\<close>, \<open>networkCountInDom\<close>: the results of
    \<open>extractReplayErrorCountFromDom()\<close> and \<open>extractReplayNetworkCountFromDom()\<close>.
\<close>

record page =
  locationPathname :: string
  locationOrigin :: string
  locationHref :: string
  historyLength :: nat
  inferredOrganizationSlug :: "string option"
  replayInDom :: "replay_link option"
  replayCtaElements :: nat
  pageText :: string
  issueTitleInDom :: "string option"
  errorsTabElement :: "tab_element option"
  networkTabElement :: "tab_element option"
  errorRowElements :: "error_row option list"
  errorAnchorRowElements :: "error_row option list"
  errorTextRows :: "error_row list"
  networkRowElements :: "network_row option list"
  eventLinks :: "(string \<times> string) list"
  issueLinks :: "(string \<times> string) list"
  errorCountInDom :: "nat option"
  networkCountInDom :: "nat option"
  clock :: nat

section \<open>Page context\<close>

datatype page_type = Issue | Replay | Other

record page_context =
  origin :: string
  organizationSlug :: "string option"
  issueId :: "string option"
  replayId :: "string option"
  pageType :: page_type

definition decodeSafe :: "(string \<Rightarrow> string option) \<Rightarrow> string \<Rightarrow> string" where
  \<comment> \<open>\<open>decodeURIComponent v\<close> is \<open>None\<close> when the built-in throws\<close>
  "decodeSafe decodeURIComponent v = (case decodeURIComponent v of Some d \<Rightarrow> d | None \<Rightarrow> v)"

fun firstPathMatch :: "(string \<Rightarrow> string option) \<Rightarrow> string \<Rightarrow> re list \<Rightarrow> string option" where
  "firstPathMatch dec pathname [] = None"
| "firstPathMatch dec pathname (pattern # patterns) =
     (case reMatch False pattern pathname of
        None \<Rightarrow> firstPathMatch dec pathname patterns
      | Some mt \<Rightarrow>
          if truthy (group mt 1) then Some (decodeSafe dec (orEmpty (group mt 1)))
          else firstPathMatch dec pathname patterns)"

definition segment :: re where
  \<comment> \<open>\<^verbatim>\<open>[^/]+\<close>\<close>
  "segment = rPlus (NSet [One CHR ''/''])"

definition idPart :: re where
  \<comment> \<open>\<^verbatim>\<open>[^/?#]+\<close>\<close>
  "idPart = rPlus (NSet [One CHR ''/'', One CHR ''?'', One CHR ''#''])"

definition organizationPatterns :: "re list" where
  \<comment> \<open>\<^verbatim>\<open>/^\/organizations\/([^/]+)\//, /^\/([^/]+)\/issues\//, /^\/([^/]+)\/replays\//\<close>\<close>
  "organizationPatterns =
     [cat [Bol, str ''/organizations/'', Grp 1 segment, Lit CHR ''/''],
      cat [Bol, Lit CHR ''/'', Grp 1 segment, str ''/issues/''],
      cat [Bol, Lit CHR ''/'', Grp 1 segment, str ''/replays/'']]"

definition issuePatterns :: "re list" where
  \<comment> \<open>\<^verbatim>\<open>/^\/organizations\/[^/]+\/issues\/([^/?#]+)/, /^\/issues\/([^/?#]+)/,
      /^\/[^/]+\/issues\/([^/?#]+)/\<close>\<close>
  "issuePatterns =
     [cat [Bol, str ''/organizations/'', segment, str ''/issues/'', Grp 1 idPart],
      cat [Bol, str ''/issues/'', Grp 1 idPart],
      cat [Bol, Lit CHR ''/'', segment, str ''/issues/'', Grp 1 idPart]]"

definition replayPatterns :: "re list" where
  \<comment> \<open>\<^verbatim>\<open>/^\/organizations\/[^/]+\/replays\/([^/?#]+)/, /^\/replays\/([^/?#]+)/,
      /^\/[^/]+\/replays\/([^/?#]+)/\<close>\<close>
  "replayPatterns =
     [cat [Bol, str ''/organizations/'', segment, str ''/replays/'', Grp 1 idPart],
      cat [Bol, str ''/replays/'', Grp 1 idPart],
      cat [Bol, Lit CHR ''/'', segment, str ''/replays/'', Grp 1 idPart]]"

definition getPageContext :: "(string \<Rightarrow> string option) \<Rightarrow> page \<Rightarrow> page_context" where
  "getPageContext dec pg =
     (let pathname = locationPathname pg;
          organizationFromPath = firstPathMatch dec pathname organizationPatterns;
          organizationSlug' = orElse organizationFromPath (inferredOrganizationSlug pg);
          issueId' = firstPathMatch dec pathname issuePatterns
      in if truthy issueId'
         then \<lparr> origin = locationOrigin pg, organizationSlug = organizationSlug',
                issueId = issueId', replayId = None, pageType = Issue \<rparr>
         else
           let replayId' = firstPathMatch dec pathname replayPatterns
           in if truthy replayId'
              then \<lparr> origin = locationOrigin pg, organizationSlug = organizationSlug',
                     issueId = None, replayId = replayId', pageType = Replay \<rparr>
              else
                case reMatch False (cat [str ''/issues/'', Grp 1 idPart]) pathname of
                  Some issueMatch \<Rightarrow>
                    \<lparr> origin = locationOrigin pg, organizationSlug = organizationSlug',
                      issueId = Some (decodeSafe dec (orEmpty (group issueMatch 1))),
                      replayId = None, pageType = Issue \<rparr>
                | None \<Rightarrow>
                    (case reMatch False (cat [str ''/replays/'', Grp 1 idPart]) pathname of
                       Some replayMatch \<Rightarrow>
                         \<lparr> origin = locationOrigin pg, organizationSlug = organizationSlug',
                           issueId = None,
                           replayId = Some (decodeSafe dec (orEmpty (group replayMatch 1))),
                           pageType = Replay \<rparr>
                     | None \<Rightarrow>
                         \<lparr> origin = locationOrigin pg, organizationSlug = None,
                           issueId = None, replayId = None, pageType = Other \<rparr>))"

section \<open>What the merge of a row collection returns\<close>

definition firstOccurrences :: "'a list \<Rightarrow> 'a list" where
  \<comment> \<open>the distinct elements of a list, each at the place of its first occurrence\<close>
  "firstOccurrences ks = rev (remdups (rev ks))"

definition lastWithKey :: "('r \<Rightarrow> string) \<Rightarrow> 'r list \<Rightarrow> string \<Rightarrow> 'r option" where
  \<comment> \<open>the last row of a list that has the given key\<close>
  "lastWithKey key rows k = find (\<lambda>r. key r = k) (rev rows)"

definition entriesOf :: "('r \<Rightarrow> string) \<Rightarrow> 'r list \<Rightarrow> (string \<times> 'r) list" where
  \<comment> \<open>the entries of the \<open>Map\<close> when the loop of \<open>uniqueRows\<close> ends\<close>
  "entriesOf key rows = foldl (\<lambda>unique row. mapSet (key row) row unique) [] rows"

section \<open>JSON values of the host API\<close>

text \<open>
  Numbers are integers here: no claim reads a fractional value.
\<close>

datatype json =
    JUndefined
  | JNull
  | JBool bool
  | JNum int
  | JStr string
  | JArr "json list"
  | JObj "(string \<times> json) list"

definition jsTruthy :: "json \<Rightarrow> bool" where
  "jsTruthy v = (case v of JUndefined \<Rightarrow> False | JNull \<Rightarrow> False | JBool b \<Rightarrow> b
                 | JNum n \<Rightarrow> n \<noteq> 0 | JStr t \<Rightarrow> t \<noteq> [] | _ \<Rightarrow> True)"

definition jsGet :: "json \<Rightarrow> string \<Rightarrow> json" where
  \<comment> \<open>\<open>v?.[k]\<close> for a key that is no built-in property\<close>
  "jsGet v k = (case v of JObj props \<Rightarrow> (case map_of props k of Some x \<Rightarrow> x | None \<Rightarrow> JUndefined)
                | _ \<Rightarrow> JUndefined)"

definition toRows :: "json \<Rightarrow> json list" where
  "toRows v =
     (case v of
        JArr items \<Rightarrow> filter jsTruthy items
      | JObj props \<Rightarrow>
          (case jsGet v ''data'' of
             JArr items \<Rightarrow> items
           | _ \<Rightarrow> (case jsGet v ''results'' of JArr items \<Rightarrow> items | _ \<Rightarrow> []))
      | _ \<Rightarrow> [])"

section \<open>Effects\<close>

text \<open>
  What the engine does to the world is written into a trace: the DOM queries (by the name of
  the function of \<^verbatim>\<open>content.ts\<close> that makes them), the clicks, \<open>history.back()\<close>, the
  waits and the remote calls, in the order the code makes them. Reads of \<open>window.location\<close>
  and \<open>window.history.length\<close> read the current page and leave no entry.
  A \<open>browser\<close> is the world the engine runs in: how the page changes while the engine waits,
  when it is clicked and when the history goes back, what the host API answers, and the
  built-ins \<open>decodeURIComponent\<close>, \<open>encodeURIComponent\<close> and \<open>URL\<close>.
\<close>

datatype dom_query =
    InferOrganizationSlugFromDom
  | ExtractReplayFromDom
  | GetReplayCtaElements
  | GetPageText
  | GetIssueTitleFromDom
  | GetReplayErrorsTabElement
  | GetReplayNetworkTabElement
  | GetReplayErrorRows
  | GetReplayErrorRowsFromAnchors
  | ParseReplayEventsFromPageText
  | GetReplayNetworkRows
  | CollectReplayLinkMaps
  | ExtractReplayErrorCountFromDom
  | ExtractReplayNetworkCountFromDom

datatype click_target = ReplayCta | ErrorsTab | NetworkTab

datatype query_value = Scalar string | Many "string list"

record request =
  reqOrigin :: string
  reqPath :: string
  reqQuery :: "(string \<times> query_value) list"

datatype response =
    Rejected string
  | NotOk nat string string
  | OkJson json

datatype effect =
    Query dom_query
  | Click click_target
  | HistoryBack
  | Wait nat
  | Fetch request

record browser =
  afterWait :: "nat \<Rightarrow> page \<Rightarrow> page"
  afterClick :: "click_target \<Rightarrow> page \<Rightarrow> page"
  afterBack :: "page \<Rightarrow> page"
  respond :: "request \<Rightarrow> page \<Rightarrow> response \<times> page"
  decodeURIComponent :: "string \<Rightarrow> string option"
  encodeURIComponent :: "string \<Rightarrow> string"
  urlHostname :: "string \<Rightarrow> string option"
  urlResolve :: "string \<Rightarrow> string \<Rightarrow> (string \<times> string) option"
  segmentRequests :: "json \<Rightarrow> network_row list"

record state =
  current :: page
  trace :: "effect list"

definition dom :: "dom_query \<Rightarrow> (page \<Rightarrow> 'a) \<Rightarrow> state \<Rightarrow> 'a \<times> state" where
  "dom q f s = (f (current s), s\<lparr>trace := trace s @ [Query q]\<rparr>)"

definition wait :: "browser \<Rightarrow> nat \<Rightarrow> state \<Rightarrow> state" where
  "wait B ms s = \<lparr>current = afterWait B ms (current s), trace = trace s @ [Wait ms]\<rparr>"

definition click :: "browser \<Rightarrow> click_target \<Rightarrow> state \<Rightarrow> state" where
  "click B t s = \<lparr>current = afterClick B t (current s), trace = trace s @ [Click t]\<rparr>"

definition historyBack :: "browser \<Rightarrow> state \<Rightarrow> state" where
  "historyBack B s = \<lparr>current = afterBack B (current s), trace = trace s @ [HistoryBack]\<rparr>"

definition sentryGet ::
    "browser \<Rightarrow> page_context \<Rightarrow> string \<Rightarrow> (string \<times> query_value) list \<Rightarrow> state
      \<Rightarrow> (string + json) \<times> state" where
  \<comment> \<open>\<open>Inl\<close> is the message of the error thrown: by \<open>fetch\<close> or \<open>response.json()\<close>
      (\<open>Rejected\<close>), or for a response that is not \<open>ok\<close>\<close>
  "sentryGet B ctx path query s =
     (let req = \<lparr>reqOrigin = origin ctx, reqPath = path, reqQuery = query\<rparr>;
          answer = respond B req (current s);
          s' = \<lparr>current = snd answer, trace = trace s @ [Fetch req]\<rparr>
      in case fst answer of
           Rejected msg \<Rightarrow> (Inl msg, s')
         | NotOk st reason body \<Rightarrow>
             (Inl (''Sentry API error: '' @
                   (if body \<noteq> [] then body else trim (digitsOf st @ '' '' @ reason))), s')
         | OkJson v \<Rightarrow> (Inr v, s'))"

section \<open>Polling\<close>

text \<open>
  The three retry loops of \<^verbatim>\<open>content.ts\<close> have one shape:
  \<^verbatim>\<open>for (let attempt = 0; attempt < N; attempt += 1) { r = produce(); if (r non-empty) return r;
      await wait(ms); } return empty;\<close>
  \<open>pollFrom\<close> is that loop from the iteration \<open>attempt\<close> on; \<open>None\<close> is the empty result.
\<close>

function pollFrom ::
    "(state \<Rightarrow> 'a option \<times> state) \<Rightarrow> (state \<Rightarrow> state) \<Rightarrow> nat \<Rightarrow> nat \<Rightarrow> state
      \<Rightarrow> 'a option \<times> state" where
  "pollFrom produce pause maxAttempts attempt s =
     (if attempt < maxAttempts
      then (case produce s of
              (Some r, s') \<Rightarrow> (Some r, s')
            | (None, s') \<Rightarrow> pollFrom produce pause maxAttempts (Suc attempt) (pause s'))
      else (None, s))"
  by pat_completeness auto
termination
  by (relation "measure (\<lambda>(produce, pause, maxAttempts, attempt, s). maxAttempts - attempt)") auto

section \<open>Replay resolution\<close>

datatype replay_source = SourceUrl | SourceDom | SourceDomClick | SourceApi

record replay_resolution =
  resolvedReplayId :: string
  resolvedReplayUrl :: string
  resolvedSource :: replay_source

definition resolution :: "replay_source \<Rightarrow> replay_link \<Rightarrow> replay_resolution" where
  "resolution src l =
     \<lparr>resolvedReplayId = linkReplayId l, resolvedReplayUrl = linkReplayUrl l, resolvedSource = src\<rparr>"

definition replayUrlPatterns :: "re list" where
  \<comment> \<open>\<^verbatim>\<open>/^\/organizations\/[^/]+\/replays\/([^/?#]+)\/?$/i, /^\/replays\/([^/?#]+)\/?$/i,
      /^\/[^/]+\/replays\/([^/?#]+)\/?$/i\<close>\<close>
  "replayUrlPatterns =
     [cat [Bol, str ''/organizations/'', segment, str ''/replays/'', Grp 1 idPart,
           rOpt (Lit CHR ''/''), Eol],
      cat [Bol, str ''/replays/'', Grp 1 idPart, rOpt (Lit CHR ''/''), Eol],
      cat [Bol, Lit CHR ''/'', segment, str ''/replays/'', Grp 1 idPart, rOpt (Lit CHR ''/''), Eol]]"

fun firstReplayUrlMatch :: "string \<Rightarrow> re list \<Rightarrow> string option" where
  \<comment> \<open>the loop over the patterns in \<open>parseReplayFromUrl\<close>: group 1 of the first pattern that
      matches with a non-empty group\<close>
  "firstReplayUrlMatch pathname [] = None"
| "firstReplayUrlMatch pathname (pattern # patterns) =
     (case reMatch True pattern pathname of
        None \<Rightarrow> firstReplayUrlMatch pathname patterns
      | Some mt \<Rightarrow>
          if truthy (group mt 1) then group mt 1 else firstReplayUrlMatch pathname patterns)"

definition parseReplayFromUrl :: "browser \<Rightarrow> page \<Rightarrow> string \<Rightarrow> replay_link option" where
  \<comment> \<open>\<open>urlResolve B rawUrl base\<close> is \<open>new URL(rawUrl, base)\<close> as its \<open>pathname\<close> and its
      \<open>toString()\<close>, \<open>None\<close> when the constructor throws\<close>
  "parseReplayFromUrl B pg rawUrl =
     (if rawUrl = [] then None
      else case urlResolve B rawUrl (locationOrigin pg) of
             None \<Rightarrow> None
           | Some parsed \<Rightarrow>
               (case firstReplayUrlMatch (fst parsed) replayUrlPatterns of
                  None \<Rightarrow> None
                | Some m1 \<Rightarrow>
                    Some \<lparr>linkReplayId = decodeSafe (decodeURIComponent B) m1,
                          linkReplayUrl = snd parsed\<rparr>))"

definition extractReplayFromDom :: "state \<Rightarrow> replay_resolution option \<times> state" where
  "extractReplayFromDom s =
     dom ExtractReplayFromDom (\<lambda>pg. map_option (resolution SourceDom) (replayInDom pg)) s"

definition getReplayCtaElements :: "state \<Rightarrow> nat \<times> state" where
  \<comment> \<open>the number of call-to-action elements found\<close>
  "getReplayCtaElements s = dom GetReplayCtaElements replayCtaElements s"

function clickPollFrom ::
    "browser \<Rightarrow> string \<Rightarrow> nat \<Rightarrow> state \<Rightarrow> replay_resolution option \<times> state" where
  \<comment> \<open>the loop of \<open>extractReplayByClickingCta\<close> from the iteration \<open>attempt\<close> on\<close>
  "clickPollFrom B beforeUrl attempt s =
     (if attempt < 10
      then (case extractReplayFromDom (wait B 200 s) of
              (Some replayFromDom, s') \<Rightarrow>
                (Some (replayFromDom\<lparr>resolvedSource := SourceDomClick\<rparr>), s')
            | (None, s') \<Rightarrow>
                (case parseReplayFromUrl B (current s') (locationHref (current s')) of
                   Some replayFromLocation \<Rightarrow>
                     (Some (resolution SourceDomClick replayFromLocation),
                      if locationHref (current s') \<noteq> beforeUrl \<and> 1 < historyLength (current s')
                      then historyBack B s' else s')
                 | None \<Rightarrow> clickPollFrom B beforeUrl (Suc attempt) s'))
      else (None, s))"
  by pat_completeness auto
termination
  by (relation "measure (\<lambda>(B, beforeUrl, attempt, s). 10 - attempt)") auto

definition extractReplayByClickingCta :: "browser \<Rightarrow> state \<Rightarrow> replay_resolution option \<times> state" where
  "extractReplayByClickingCta B s =
     (case getReplayCtaElements s of
        (ctaElements, s') \<Rightarrow>
          if ctaElements = 0 then (None, s')
          else clickPollFrom B (locationHref (current s')) 0 (click B ReplayCta s'))"

definition extractReplayFromDomWithRetry :: "browser \<Rightarrow> state \<Rightarrow> replay_resolution option \<times> state" where
  "extractReplayFromDomWithRetry B s = pollFrom extractReplayFromDom (wait B 250) 8 0 s"

definition assertOrganization :: "page_context \<Rightarrow> string + string" where
  "assertOrganization ctx =
     (case orNull (organizationSlug ctx) of
        None \<Rightarrow> Inl (''Could not detect Sentry organization from this page URL. '' @
                      ''Open an issue URL under /organizations/<org>/... for actions that query API.'')
      | Some slug \<Rightarrow> Inr slug)"

definition replaysQuery :: "string \<Rightarrow> (string \<times> query_value) list" where
  \<comment> \<open>\<^verbatim>\<open>{ query: `issue.id:${ctx.issueId}`, statsPeriod: "14d", per_page: 1, sort: "-started_at",
      field: ["id", "count_errors", "error_ids"] }\<close>\<close>
  "replaysQuery anIssueId =
     [(''query'', Scalar (''issue.id:'' @ anIssueId)), (''statsPeriod'', Scalar ''14d''),
      (''per_page'', Scalar ''1''), (''sort'', Scalar ''-started_at''),
      (''field'', Many [''id'', ''count_errors'', ''error_ids''])]"

definition replayUrlOf :: "string \<Rightarrow> string \<Rightarrow> string \<Rightarrow> string" where
  \<comment> \<open>\<^verbatim>\<open>`${ctx.origin}/organizations/${organizationSlug}/replays/${replayId}/`\<close>\<close>
  "replayUrlOf anOrigin slug rid = anOrigin @ ''/organizations/'' @ slug @ ''/replays/'' @ rid @ ''/''"

definition resolveReplay ::
    "browser \<Rightarrow> page_context \<Rightarrow> state \<Rightarrow> (string + replay_resolution) \<times> state" where
  \<comment> \<open>\<open>Inl\<close> is the message of the error thrown\<close>
  "resolveReplay B ctx s =
     (if truthy (replayId ctx)
      then (Inr \<lparr>resolvedReplayId = orEmpty (replayId ctx),
                 resolvedReplayUrl =
                   (case orNull (organizationSlug ctx) of
                      Some slug \<Rightarrow> replayUrlOf (origin ctx) slug (orEmpty (replayId ctx))
                    | None \<Rightarrow> locationHref (current s)),
                 resolvedSource = SourceUrl\<rparr>, s)
      else
        case extractReplayFromDomWithRetry B s of
          (Some domReplay, s1) \<Rightarrow> (Inr domReplay, s1)
        | (None, s1) \<Rightarrow>
            (case extractReplayByClickingCta B s1 of
               (Some clickedReplay, s2) \<Rightarrow> (Inr clickedReplay, s2)
             | (None, s2) \<Rightarrow>
                 (case (if truthy (organizationSlug ctx)
                        then map_sum id Some (assertOrganization ctx) else Inr None) of
                    Inl err \<Rightarrow> (Inl err, s2)
                  | Inr slugOrNull \<Rightarrow>
                      if \<not> truthy (issueId ctx) then (Inl ''No replay found on this page.'', s2)
                      else
                        (case slugOrNull of
                           None \<Rightarrow> (Inl ''No replay link found in DOM for this issue.'', s2)
                         | Some slug \<Rightarrow>
                             (case sentryGet B ctx (''/api/0/organizations/'' @ slug @ ''/replays/'')
                                     (replaysQuery (orEmpty (issueId ctx))) s2 of
                                (Inl err, s3) \<Rightarrow> (Inl err, s3)
                              | (Inr body, s3) \<Rightarrow>
                                  (case (case toRows body of
                                           [] \<Rightarrow> JUndefined
                                         | first # _ \<Rightarrow> jsGet first ''id'') of
                                     JStr rid \<Rightarrow>
                                       if rid = []
                                       then (Inl ''No replay is attached to this issue.'', s3)
                                       else (Inr \<lparr>resolvedReplayId = rid,
                                                  resolvedReplayUrl = replayUrlOf (origin ctx) slug rid,
                                                  resolvedSource = SourceApi\<rparr>, s3)
                                   | _ \<Rightarrow> (Inl ''No replay is attached to this issue.'', s3)))))))"

section \<open>Reading API records\<close>

text \<open>
  The answers of the host API are read at their declared TypeScript types (\<open>SentryEvent\<close>,
  \<open>SentryException\<close>, \<open>SentryFrame\<close>, \<open>SentryReplay\<close>): an entry of a list of records is a
  record, a list of texts holds texts.
\<close>

definition jsText :: "json \<Rightarrow> string option" where
  \<comment> \<open>\<open>typeof v === "string" ? v : null\<close>\<close>
  "jsText v = (case v of JStr t \<Rightarrow> Some t | _ \<Rightarrow> None)"

definition jsOr :: "json \<Rightarrow> json \<Rightarrow> json" where
  \<comment> \<open>\<open>a || b\<close>\<close>
  "jsOr a b = (if jsTruthy a then a else b)"

definition jsItems :: "json \<Rightarrow> json list" where
  \<comment> \<open>\<open>Array.isArray(v) ? v : []\<close>\<close>
  "jsItems v = (case v of JArr items \<Rightarrow> items | _ \<Rightarrow> [])"

definition intText :: "int \<Rightarrow> string" where
  "intText n = (if n < 0 then CHR ''-'' # digitsOf (nat (- n)) else digitsOf (nat n))"

fun jsToString :: "json \<Rightarrow> string" where
  \<comment> \<open>\<open>String(v)\<close>, also the text of \<open>v\<close> inside a template literal. A number is an integer
      printed digit by digit, as JavaScript prints an integer below \<open>10^21\<close> in magnitude; a
      fraction and the exponent notation of larger numbers are outside this model\<close>
  "jsToString JUndefined = ''undefined''"
| "jsToString JNull = ''null''"
| "jsToString (JBool b) = (if b then ''true'' else ''false'')"
| "jsToString (JNum n) = intText n"
| "jsToString (JStr t) = t"
| "jsToString (JArr items) =
     joinWith '','' (map (\<lambda>v. if v = JNull \<or> v = JUndefined then [] else jsToString v) items)"
| "jsToString (JObj props) = ''[object Object]''"

definition isNullish :: "json \<Rightarrow> bool" where
  "isNullish v = (v = JUndefined \<or> v = JNull)"

section \<open>Replay tabs\<close>

definition isTabActive :: "tab_element \<Rightarrow> bool" where
  "isTabActive element =
     (if ariaSelected element = Some ''true'' then True
      else if toLowerCase (orEmpty (dataState element)) \<in> {''active'', ''selected''} then True
      else includesStr (toLowerCase (className element)) ''active''
           \<or> includesStr (toLowerCase (className element)) ''selected'')"

definition ensureReplayErrorsTabSelected :: "browser \<Rightarrow> state \<Rightarrow> state" where
  "ensureReplayErrorsTabSelected B s =
     (case dom GetReplayErrorsTabElement errorsTabElement s of
        (None, s') \<Rightarrow> s'
      | (Some tab, s') \<Rightarrow> if \<not> isTabActive tab then wait B 350 (click B ErrorsTab s') else s')"

definition ensureReplayNetworkTabSelected :: "browser \<Rightarrow> state \<Rightarrow> state" where
  "ensureReplayNetworkTabSelected B s =
     (case dom GetReplayNetworkTabElement networkTabElement s of
        (None, s') \<Rightarrow> s'
      | (Some tab, s') \<Rightarrow> if \<not> isTabActive tab then wait B 400 (click B NetworkTab s') else s')"

section \<open>Multi-strategy row extraction\<close>

definition parsedRows :: "'r option list \<Rightarrow> 'r list" where
  \<comment> \<open>\<open>rows.map((row) => parse(row)).filter(Boolean)\<close>; a row element of the page carries
      what \<open>parseReplayErrorRow\<close> or \<open>parseReplayNetworkRow\<close> returns for it\<close>
  "parsedRows rows = List.map_filter id rows"

definition errorRowsAttempt :: "state \<Rightarrow> error_row list option \<times> state" where
  \<comment> \<open>one iteration of the loop of \<open>getReplayErrorEventsFromDomWithRetry\<close>, up to the wait\<close>
  "errorRowsAttempt s =
     (case dom GetReplayErrorRows errorRowElements s of
        (rowCandidates, s1) \<Rightarrow>
     (case dom GetReplayErrorRowsFromAnchors errorAnchorRowElements s1 of
        (anchorRowCandidates, s2) \<Rightarrow>
     (case dom ParseReplayEventsFromPageText errorTextRows s2 of
        (parsedFromText, s3) \<Rightarrow>
          let parsed = parsedRows rowCandidates @ parsedRows anchorRowCandidates @ parsedFromText
          in (if 0 < length parsed then Some (uniqueRows errorKey parsed) else None, s3))))"

definition getReplayErrorEventsFromDomWithRetry :: "browser \<Rightarrow> state \<Rightarrow> error_row list \<times> state" where
  "getReplayErrorEventsFromDomWithRetry B s =
     (case pollFrom errorRowsAttempt (wait B 250) 12 0 (ensureReplayErrorsTabSelected B s) of
        (Some rows, s') \<Rightarrow> (rows, s')
      | (None, s') \<Rightarrow> ([], s'))"

definition networkRowsAttempt :: "browser \<Rightarrow> state \<Rightarrow> network_row list option \<times> state" where
  \<comment> \<open>one iteration of the loop of \<open>getReplayNetworkEventsFromDomWithRetry\<close>, up to the wait\<close>
  "networkRowsAttempt B s =
     (case dom GetReplayNetworkRows networkRowElements s of
        (rowElements, s1) \<Rightarrow>
     (case dom GetPageText (\<lambda>pg. parseReplayNetworkEventsFromPageText (urlHostname B) (pageText pg)) s1 of
        (parsedFromText, s2) \<Rightarrow>
          let parsed = parsedRows rowElements @ parsedFromText
          in (if 0 < length parsed then Some (uniqueRows networkKey parsed) else None, s2)))"

definition getReplayNetworkEventsFromDomWithRetry ::
    "browser \<Rightarrow> state \<Rightarrow> network_row list \<times> state" where
  "getReplayNetworkEventsFromDomWithRetry B s =
     (case pollFrom (networkRowsAttempt B) (wait B 250) 12 0 (ensureReplayNetworkTabSelected B s) of
        (Some rows, s') \<Rightarrow> (rows, s')
      | (None, s') \<Rightarrow> ([], s'))"

section \<open>Action handlers\<close>

definition replayDetailsPath :: "string \<Rightarrow> string \<Rightarrow> string" where
  \<comment> \<open>\<^verbatim>\<open>`/api/0/organizations/${organizationSlug}/replays/${replay.replayId}/`\<close>\<close>
  "replayDetailsPath slug rid = ''/api/0/organizations/'' @ slug @ ''/replays/'' @ rid @ ''/''"

definition fetchReplayDetails ::
    "browser \<Rightarrow> page_context \<Rightarrow> string \<Rightarrow> string list \<Rightarrow> state \<Rightarrow> json \<times> state" where
  \<comment> \<open>\<^verbatim>\<open>let replayDetails = null; if (organizationSlug) { try { replayDetails = await sentryGet(...) }
      catch { replayDetails = null } }\<close>\<close>
  "fetchReplayDetails B ctx rid fieldNames s =
     (case orNull (organizationSlug ctx) of
        None \<Rightarrow> (JNull, s)
      | Some slug \<Rightarrow>
          (case sentryGet B ctx (replayDetailsPath slug rid) [(''field'', Many fieldNames)] s of
             (Inl err, s') \<Rightarrow> (JNull, s')
           | (Inr details, s') \<Rightarrow> (details, s')))"

definition extractProjectRefFromReplayDetails :: "json \<Rightarrow> string option" where
  "extractProjectRefFromReplayDetails details =
     (if \<not> jsTruthy details then None
      else if \<not> isNullish (jsGet details ''project_id'')
        then Some (jsToString (jsGet details ''project_id''))
      else case jsGet details ''project'' of
             JStr t \<Rightarrow> Some t
           | JObj props \<Rightarrow>
               if \<not> isNullish (jsGet (JObj props) ''slug'')
               then Some (jsToString (jsGet (JObj props) ''slug''))
               else if \<not> isNullish (jsGet (JObj props) ''id'')
               then Some (jsToString (jsGet (JObj props) ''id''))
               else None
           | JArr items \<Rightarrow> None
           | _ \<Rightarrow> None)"

definition getReplayNetworkEventsFromApiSegments ::
    "browser \<Rightarrow> page_context \<Rightarrow> string \<Rightarrow> string \<Rightarrow> string \<Rightarrow> state
      \<Rightarrow> network_row list \<times> state" where
  \<comment> \<open>\<open>segmentRequests B raw\<close> is what \<open>extractNetworkRequestsFromSegmentNode(raw, collected)\<close>
      collects\<close>
  "getReplayNetworkEventsFromApiSegments B ctx slug rid projectReference s =
     (case sentryGet B ctx
             (''/api/0/projects/'' @ slug @ ''/'' @ projectReference @ ''/replays/'' @ rid
                @ ''/recording-segments/'')
             [(''per_page'', Scalar ''20'')] s of
        (Inl err, s') \<Rightarrow> ([], s')
      | (Inr raw, s') \<Rightarrow> (uniqueRows networkKey (segmentRequests B raw), s'))"

record network_debug =
  networkRows :: nat
  networkFromText :: nat
  networkFromApi :: nat
  projectRef :: "string option"

record network_reply =
  netReplayId :: string
  netReplayUrl :: string
  netSource :: replay_source
  shouldOpenReplay :: bool
  totalNetworkRequests :: nat
  totalNetworkErrors :: nat
  networkErrors :: "network_row list"
  requestLinks :: "string list option"
  networkDataSource :: string
  replyNote :: "string option"
  debugInfo :: "network_debug option"

definition handleReplayNetworkErrors ::
    "browser \<Rightarrow> page_context \<Rightarrow> state \<Rightarrow> (string + network_reply) \<times> state" where
  "handleReplayNetworkErrors B ctx s =
     (case resolveReplay B ctx s of
        (Inl err, s1) \<Rightarrow> (Inl err, s1)
      | (Inr replay, s1) \<Rightarrow>
          if pageType ctx \<noteq> Replay
          then (Inr \<lparr>netReplayId = resolvedReplayId replay,
                      netReplayUrl = resolvedReplayUrl replay,
                      netSource = resolvedSource replay,
                      shouldOpenReplay = True,
                      totalNetworkRequests = 0,
                      totalNetworkErrors = 0,
                      networkErrors = [],
                      requestLinks = None,
                      networkDataSource = ''dom'',
                      replyNote = Some (''Replay tab opened. Run this action again on the replay page '' @
                                        ''to extract network errors.''),
                      debugInfo = None\<rparr>, s1)
          else
            let (replayDetails, s2) =
                  fetchReplayDetails B ctx (resolvedReplayId replay)
                    [''id'', ''project_id'', ''project''] s1;
                (networkRequestsFromDom, s3) = getReplayNetworkEventsFromDomWithRetry B s2;
                projectReference = extractProjectRefFromReplayDetails replayDetails;
                (networkRequestsFromApi, s4) =
                  (case (orNull (organizationSlug ctx), orNull projectReference) of
                     (Some slug, Some pr) \<Rightarrow>
                       if length networkRequestsFromDom = 0
                       then getReplayNetworkEventsFromApiSegments B ctx slug
                              (resolvedReplayId replay) pr s3
                       else ([], s3)
                   | _ \<Rightarrow> ([], s3));
                networkRequests = (if 0 < length networkRequestsFromDom
                                   then networkRequestsFromDom else networkRequestsFromApi);
                errs = filter isNetworkErrorEntry networkRequests;
                (countInDom, s5) = dom ExtractReplayNetworkCountFromDom networkCountInDom s4;
                (rowElements, s6) = dom GetReplayNetworkRows networkRowElements s5;
                (fromText, s7) =
                  dom GetPageText
                    (\<lambda>pg. parseReplayNetworkEventsFromPageText (urlHostname B) (pageText pg)) s6
            in (Inr \<lparr>netReplayId = resolvedReplayId replay,
                      netReplayUrl = resolvedReplayUrl replay,
                      netSource = resolvedSource replay,
                      shouldOpenReplay = False,
                      totalNetworkRequests =
                        max (case countInDom of None \<Rightarrow> 0 | Some n \<Rightarrow> n) (length networkRequests),
                      totalNetworkErrors = length errs,
                      networkErrors = errs,
                      requestLinks = Some (firstOccurrences (List.map_filter
                        (\<lambda>row. orNull (case detailsUrl row of Some d \<Rightarrow> Some d
                                        | None \<Rightarrow> requestUrl row)) errs)),
                      networkDataSource =
                        (if 0 < length networkRequestsFromDom then ''dom'' else ''api-segments''),
                      replyNote = None,
                      debugInfo = Some \<lparr>networkRows = length rowElements,
                                         networkFromText = length fromText,
                                         networkFromApi = length networkRequestsFromApi,
                                         projectRef = orNull projectReference\<rparr>\<rparr>, s7))"

definition getReplayErrorEvents ::
    "browser \<Rightarrow> page_context \<Rightarrow> string \<Rightarrow> state \<Rightarrow> (string + json list) \<times> state" where
  "getReplayErrorEvents B ctx rid s =
     (case assertOrganization ctx of
        Inl err \<Rightarrow> (Inl err, s)
      | Inr slug \<Rightarrow>
          (case sentryGet B ctx (''/api/0/organizations/'' @ slug @ ''/events/'')
                  [(''query'', Scalar (''replay_id:'' @ rid)),
                   (''field'', Many [''title'', ''issue'', ''project'', ''timestamp'', ''id'']),
                   (''sort'', Scalar ''-timestamp''), (''per_page'', Scalar ''20''),
                   (''statsPeriod'', Scalar ''14d'')] s of
             (Inl err, s') \<Rightarrow> (Inr [], s')
           | (Inr body, s') \<Rightarrow> (Inr (toRows body), s')))"

datatype replay_event = DomEvent error_row | ApiEvent json

definition eventIdOf :: "replay_event \<Rightarrow> string option" where
  \<comment> \<open>\<open>typeof event.eventId === "string" ? event.eventId : null\<close>\<close>
  "eventIdOf ev = (case ev of DomEvent row \<Rightarrow> eventId row | ApiEvent v \<Rightarrow> jsText (jsGet v ''eventId''))"

definition issueOf :: "replay_event \<Rightarrow> string option" where
  \<comment> \<open>\<open>typeof event.issue === "string" ? event.issue : null\<close>\<close>
  "issueOf ev = (case ev of DomEvent row \<Rightarrow> issue row | ApiEvent v \<Rightarrow> jsText (jsGet v ''issue''))"

record event_with_links =
  event :: replay_event
  eventUrl :: "string option"
  issueUrl :: "string option"

definition withLinks ::
    "browser \<Rightarrow> page_context \<Rightarrow> (string \<times> string) list \<Rightarrow> (string \<times> string) list
      \<Rightarrow> replay_event \<Rightarrow> event_with_links" where
  \<comment> \<open>the function mapped over \<open>replayEvents\<close> in \<open>handleReplayErrors\<close>. The link maps are
      plain objects in the source, read with \<open>linkMaps.issueLinks[issue]\<close>; \<open>map_of\<close> reads their
      own entries only, so an id that names a member every object inherits (\<open>toString\<close>,
      \<open>constructor\<close>), for which the source reads that member, is outside this model\<close>
  "withLinks B ctx evLinks isLinks ev =
     (let eventUrl' = (case orNull (eventIdOf ev) of
                         None \<Rightarrow> None
                       | Some eid \<Rightarrow> orNull (map_of evLinks eid));
          issueUrl' = (case orNull (issueOf ev) of
                         None \<Rightarrow> None
                       | Some key \<Rightarrow> orNull (map_of isLinks key));
          issueUrl'' =
            (case (issueUrl', orNull (organizationSlug ctx), orNull (issueOf ev)) of
               (None, Some slug, Some key) \<Rightarrow>
                 Some (origin ctx @ ''/organizations/'' @ slug @ ''/issues/?query=''
                       @ encodeURIComponent B key)
             | _ \<Rightarrow> issueUrl')
      in \<lparr>event = ev, eventUrl = eventUrl', issueUrl = issueUrl''\<rparr>)"

fun splitOnText :: "string \<Rightarrow> string \<Rightarrow> string list" where
  \<comment> \<open>\<open>s.split(sep)\<close> for a separator that is not empty\<close>
  "splitOnText sep [] = [[]]"
| "splitOnText sep (c # cs) =
     (if sep \<noteq> [] \<and> startsWith (c # cs) sep
      then [] # splitOnText sep (drop (length sep - 1) cs)
      else (case splitOnText sep cs of [] \<Rightarrow> [[c]] | w # ws \<Rightarrow> (c # w) # ws))"

record errors_debug =
  domRows :: nat
  domAnchorRows :: nat
  domTextRows :: nat
  eventLinkCount :: nat
  issueLinkCount :: nat

record errors_reply =
  errReplayId :: string
  errReplayUrl :: string
  errSource :: replay_source
  errShouldOpenReplay :: bool
  totalErrors :: int
  errorEventIds :: "string list"
  issuesInReplay :: "string list"
  replyIssueLinks :: "(string option \<times> string option) list"
  replayEvents :: "event_with_links list"
  replayDataSource :: string
  errDebug :: errors_debug

definition handleReplayErrors ::
    "browser \<Rightarrow> page_context \<Rightarrow> state \<Rightarrow> (string + errors_reply) \<times> state" where
  "handleReplayErrors B ctx s =
     (case resolveReplay B ctx s of
        (Inl err, s1) \<Rightarrow> (Inl err, s1)
      | (Inr replay, s1) \<Rightarrow>
          let (replayDetails, s2) =
                fetchReplayDetails B ctx (resolvedReplayId replay)
                  [''id'', ''count_errors'', ''error_ids''] s1;
              errorIds = (if jsTruthy replayDetails
                          then filter (\<lambda>t. t \<noteq> [])
                                 (List.map_filter jsText (jsItems (jsGet replayDetails ''error_ids'')))
                          else []);
              (replayEventsFromDom, s3) = getReplayErrorEventsFromDomWithRetry B s2
          in (case (if truthy (organizationSlug ctx) \<and> length replayEventsFromDom = 0
                   then getReplayErrorEvents B ctx (resolvedReplayId replay) s3
                   else (Inr [], s3)) of
               (Inl err, s4) \<Rightarrow> (Inl err, s4)
             | (Inr replayEventsFromApi, s4) \<Rightarrow>
                 let evs = (if 0 < length replayEventsFromDom
                            then map DomEvent replayEventsFromDom
                            else map ApiEvent replayEventsFromApi);
                     (linkMaps, s5) = dom CollectReplayLinkMaps (\<lambda>pg. (eventLinks pg, issueLinks pg)) s4;
                     replayEventsWithLinks = map (withLinks B ctx (fst linkMaps) (snd linkMaps)) evs;
                     issuesInReplay' = firstOccurrences
                       (List.map_filter (\<lambda>e. orNull (issueOf (event e))) replayEventsWithLinks);
                     eventIdsFromDom =
                       List.map_filter (\<lambda>e. orNull (eventIdOf (event e))) replayEventsWithLinks;
                     (domErrorCount, s6) = dom ExtractReplayErrorCountFromDom errorCountInDom s5;
                     countErrors = (case jsGet replayDetails ''count_errors'' of JNum n \<Rightarrow> n | _ \<Rightarrow> 0);
                     issueLinkTexts = firstOccurrences
                       (List.map_filter
                          (\<lambda>e. case (issueOf (event e), issueUrl e) of
                                  (Some key, Some url) \<Rightarrow> Some (key @ ''|||'' @ url)
                                | _ \<Rightarrow> None) replayEventsWithLinks);
                     (rows, s7) = dom GetReplayErrorRows errorRowElements s6;
                     (anchorRows, s8) = dom GetReplayErrorRowsFromAnchors errorAnchorRowElements s7;
                     (textRows, s9) = dom ParseReplayEventsFromPageText errorTextRows s8
                 in (Inr \<lparr>errReplayId = resolvedReplayId replay,
                           errReplayUrl = resolvedReplayUrl replay,
                           errSource = resolvedSource replay,
                           errShouldOpenReplay = (pageType ctx \<noteq> Replay),
                           totalErrors = Max {countErrors, int (length errorIds),
                                              int (case domErrorCount of None \<Rightarrow> 0 | Some n \<Rightarrow> n),
                                              int (length replayEventsWithLinks)},
                           errorEventIds = (if 0 < length errorIds then errorIds else eventIdsFromDom),
                           issuesInReplay = issuesInReplay',
                           replyIssueLinks =
                             map (\<lambda>t. (case splitOnText ''|||'' t of
                                          [] \<Rightarrow> (None, None)
                                        | [a] \<Rightarrow> (Some a, None)
                                        | a # b # _ \<Rightarrow> (Some a, Some b))) issueLinkTexts,
                           replayEvents = replayEventsWithLinks,
                           replayDataSource = (if 0 < length replayEventsFromDom then ''dom'' else ''api''),
                           errDebug = \<lparr>domRows = length rows,
                                        domAnchorRows = length anchorRows,
                                        domTextRows = length textRows,
                                        eventLinkCount = length (fst linkMaps),
                                        issueLinkCount = length (snd linkMaps)\<rparr>\<rparr>, s9)))"

definition handleOpenReplay ::
    "browser \<Rightarrow> page_context \<Rightarrow> state \<Rightarrow> (string + replay_resolution) \<times> state" where
  "handleOpenReplay B ctx s = resolveReplay B ctx s"

definition getLatestIssueEvent :: "browser \<Rightarrow> page_context \<Rightarrow> state \<Rightarrow> (string + json) \<times> state" where
  "getLatestIssueEvent B ctx s =
     (case assertOrganization ctx of
        Inl err \<Rightarrow> (Inl err, s)
      | Inr slug \<Rightarrow>
          if \<not> truthy (issueId ctx) then (Inl ''This action requires an issue page.'', s)
          else sentryGet B ctx
                 (''/api/0/organizations/'' @ slug @ ''/issues/'' @ orEmpty (issueId ctx)
                    @ ''/events/latest/'') [] s)"

definition jsTruthyText :: "json \<Rightarrow> string option" where
  \<comment> \<open>a field of declared type \<open>string\<close> that is set and not empty\<close>
  "jsTruthyText v = (if jsTruthy v then Some (jsToString v) else None)"

definition formatFrame :: "json \<Rightarrow> string" where
  "formatFrame frame =
     (let fn = jsToString (jsOr (jsGet frame ''raw_function'')
                             (jsOr (jsGet frame ''function'') (JStr ''<anonymous>'')));
          fl = jsToString (jsOr (jsGet frame ''filename'')
                             (jsOr (jsGet frame ''abs_path'')
                                (jsOr (jsGet frame ''module'') (JStr ''unknown''))));
          ln = (if isNullish (jsGet frame ''lineno'') then ''?'' else jsToString (jsGet frame ''lineno''));
          cl = (if isNullish (jsGet frame ''colno'') then ''?'' else jsToString (jsGet frame ''colno''))
      in fn @ '' ('' @ fl @ '':'' @ ln @ '':'' @ cl @ '')'')"

definition normalizeFrames :: "json \<Rightarrow> string" where
  "normalizeFrames frames =
     (if \<not> jsTruthy frames \<or> jsItems frames = [] then ''(no frames)''
      else joinWith [CHR 0x0A] (map (\<lambda>frame. ''- '' @ formatFrame frame) (rev (jsItems frames))))"

definition getExceptionValues :: "json \<Rightarrow> json list" where
  "getExceptionValues ev =
     (case find (\<lambda>entry. jsGet entry ''type'' = JStr ''exception'') (jsItems (jsGet ev ''entries'')) of
        None \<Rightarrow> []
      | Some exceptionEntry \<Rightarrow> jsItems (jsGet (jsGet exceptionEntry ''data'') ''values''))"

definition extractRawStacktrace :: "json \<Rightarrow> string + string" where
  "extractRawStacktrace ev =
     (let vals = getExceptionValues ev
      in if length vals = 0 then Inl ''No exception stacktrace found in the latest event.''
         else Inr (joinWith [CHR 0x0A, CHR 0x0A]
                (map (\<lambda>(exception, index).
                        digitsOf (index + 1) @ ''. ''
                        @ jsToString (jsOr (jsGet exception ''type'') (JStr ''Exception''))
                        @ (if jsTruthy (jsGet exception ''value'')
                           then '': '' @ jsToString (jsGet exception ''value'') else [])
                        @ [CHR 0x0A]
                        @ normalizeFrames
                            (jsOr (jsGet (jsGet exception ''raw_stacktrace'') ''frames'')
                               (jsGet (jsGet exception ''stacktrace'') ''frames'')))
                   (zip vals [0 ..< length vals]))))"

record prompt_event =
  eventTitle :: "string option"
  eventID :: "string option"
  culprit :: "string option"
  platform :: "string option"

definition promptEventOf :: "json \<Rightarrow> prompt_event" where
  "promptEventOf ev =
     \<lparr>eventTitle = jsTruthyText (jsGet ev ''title''), eventID = jsTruthyText (jsGet ev ''eventID''),
      culprit = jsTruthyText (jsGet ev ''culprit''), platform = jsTruthyText (jsGet ev ''platform'')\<rparr>"

definition buildPrompt :: "prompt_event \<Rightarrow> string \<Rightarrow> string" where
  "buildPrompt ev stacktrace =
     (let summaryItems =
            (case orNull (eventTitle ev) of Some t \<Rightarrow> [''- Title: '' @ t] | None \<Rightarrow> [])
            @ (case orNull (eventID ev) of Some t \<Rightarrow> [''- Event ID: '' @ t] | None \<Rightarrow> [])
            @ (case orNull (culprit ev) of Some t \<Rightarrow> [''- Culprit: '' @ t] | None \<Rightarrow> [])
            @ (case orNull (platform ev) of Some t \<Rightarrow> [''- Platform: '' @ t] | None \<Rightarrow> []);
          summary = (if 0 < length summaryItems then joinWith [CHR 0x0A] summaryItems
                     else ''- Context fields unavailable from page/API.'')
      in joinWith [CHR 0x0A]
           [''You are a senior software engineer helping debug a Sentry production issue.'',
            [],
            ''Issue context:'',
            summary,
            [],
            ''Raw stacktrace:'',
            stacktrace,
            [],
            ''Tasks:'',
            ''1. Identify the most likely root cause and why.'',
            ''2. Suggest the minimum safe fix with implementation notes.'',
            ''3. Provide 2-3 high-signal checks/tests to validate the fix.'',
            ''4. Highlight any assumptions or missing telemetry.''])"

definition stackEndMarkers :: "re list" where
  \<comment> \<open>\<^verbatim>\<open>/\bSession Replay\b/i, /\bBreadcrumbs\b/i, /\bTags\b/i, /\bContexts\b/i, /\bEvent Data\b/i,
      /\bAdditional Data\b/i\<close>\<close>
  "stackEndMarkers = map (\<lambda>w. cat [WordB, str w, WordB])
     [''Session Replay'', ''Breadcrumbs'', ''Tags'', ''Contexts'', ''Event Data'', ''Additional Data'']"

definition extractStacktraceFromText :: "string \<Rightarrow> string option" where
  \<comment> \<open>\<open>extractStacktraceFromDom\<close> after its \<open>getPageText()\<close>\<close>
  "extractStacktraceFromText text =
     (case reMatch True (cat [WordB, str ''Stack Trace'', WordB]) text of
        None \<Rightarrow> None
      | Some startMatch \<Rightarrow>
          let sectionText = drop (m_index startMatch) text;
              endIndex = foldl (\<lambda>endIndex marker.
                           (case reMatch True marker sectionText of
                              None \<Rightarrow> endIndex
                            | Some markerMatch \<Rightarrow>
                                if 20 < m_index markerMatch \<and> m_index markerMatch < endIndex
                                then m_index markerMatch else endIndex))
                         (length sectionText) stackEndMarkers;
              normalized = toRawStacktraceFromSection (take endIndex sectionText)
          in (case orNull normalized of
                None \<Rightarrow> None
              | Some t \<Rightarrow> if length t < 30 then None else Some t))"

definition eventIdFromText :: "string \<Rightarrow> string option" where
  \<comment> \<open>\<open>getEventIdFromDom\<close> after its \<open>getPageText()\<close>: \<^verbatim>\<open>/\bEvent ID:\s*([a-zA-Z0-9]+)/i\<close>\<close>
  "eventIdFromText text =
     (case reMatch True
             (cat [WordB, str ''Event ID:'', rStar (Set [SpaceC]),
                   Grp 1 (rPlus (Set [Range CHR ''a'' CHR ''z'', Range CHR ''A'' CHR ''Z'',
                                      Range CHR ''0'' CHR ''9'']))]) text of
        None \<Rightarrow> None
      | Some mt \<Rightarrow> group mt 1)"

record prompt_reply =
  issueTitle :: "string option"
  promptEventId :: "string option"
  promptSource :: string
  prompt :: string

definition handleRawStacktracePrompt ::
    "browser \<Rightarrow> page_context \<Rightarrow> state \<Rightarrow> (string + prompt_reply) \<times> state" where
  "handleRawStacktracePrompt B ctx s =
     (if pageType ctx \<noteq> Issue then (Inl ''Open a Sentry issue page for this action.'', s)
      else
        let (domStacktrace, s1) = dom GetPageText (\<lambda>pg. extractStacktraceFromText (pageText pg)) s
        in (case orNull domStacktrace of
              Some stack \<Rightarrow>
                let (titleInDom, s2) = dom GetIssueTitleFromDom issueTitleInDom s1;
                    (eventIdInDom, s3) = dom GetPageText (\<lambda>pg. eventIdFromText (pageText pg)) s2;
                    domEvent = \<lparr>eventTitle = orNull titleInDom, eventID = orNull eventIdInDom,
                                culprit = None, platform = None\<rparr>
                in (Inr \<lparr>issueTitle = orNull (eventTitle domEvent),
                          promptEventId = orNull (eventID domEvent),
                          promptSource = ''dom'',
                          prompt = buildPrompt domEvent stack\<rparr>, s3)
            | None \<Rightarrow>
                (case getLatestIssueEvent B ctx s1 of
                   (Inl err, s2) \<Rightarrow> (Inl err, s2)
                 | (Inr ev, s2) \<Rightarrow>
                     (case extractRawStacktrace ev of
                        Inl err \<Rightarrow> (Inl err, s2)
                      | Inr stack \<Rightarrow>
                          (Inr \<lparr>issueTitle = eventTitle (promptEventOf ev),
                                 promptEventId = eventID (promptEventOf ev),
                                 promptSource = ''api'',
                                 prompt = buildPrompt (promptEventOf ev) stack\<rparr>, s2)))))"

definition tagsToRecord :: "json \<Rightarrow> (string \<times> json) list" where
  \<comment> \<open>the object built by the loop, as its entries\<close>
  "tagsToRecord tags =
     foldl (\<lambda>result tag.
              if jsTruthy (jsGet tag ''key'') \<and> jsTruthy (jsGet tag ''value'')
              then mapSet (jsToString (jsGet tag ''key'')) (jsGet tag ''value'') result
              else result)
       [] (jsItems tags)"

definition handleUserDetails :: "browser \<Rightarrow> page_context \<Rightarrow> state \<Rightarrow> (string + json) \<times> state" where
  "handleUserDetails B ctx s =
     (if pageType ctx \<noteq> Issue then (Inl ''Open a Sentry issue page for this action.'', s)
      else
        (case getLatestIssueEvent B ctx s of
          (Inl err, s1) \<Rightarrow> (Inl err, s1)
        | (Inr ev, s1) \<Rightarrow>
            let tags = JObj (tagsToRecord (jsGet ev ''tags''));
                user = jsGet ev ''user'';
                contexts = jsGet ev ''contexts''
            in (Inr (JObj
                 [(''issueId'', (case issueId ctx of None \<Rightarrow> JNull | Some t \<Rightarrow> JStr t)),
                  (''eventId'', jsOr (jsGet ev ''eventID'') JNull),
                  (''user'', JObj
                     [(''id'', jsOr (jsGet user ''id'') JNull),
                      (''username'', jsOr (jsGet user ''username'') JNull),
                      (''email'', jsOr (jsGet user ''email'') JNull),
                      (''ipAddress'', jsOr (jsGet user ''ip_address'') JNull)]),
                  (''device'', jsOr (jsGet contexts ''device'') JNull),
                  (''os'', jsOr (jsGet contexts ''os'') JNull),
                  (''browser'', jsOr (jsGet contexts ''browser'') JNull),
                  (''app'', jsOr (jsGet contexts ''app'') JNull),
                  (''tags'', JObj
                     [(''release'', jsOr (jsGet tags ''release'') JNull),
                      (''environment'', jsOr (jsGet tags ''environment'') JNull),
                      (''level'', jsOr (jsGet tags ''level'') JNull),
                      (''device'', jsOr (jsGet tags ''device'') JNull)])]), s1)))"

section \<open>Dispatch and the response envelope\<close>

datatype action_data =
    PromptData prompt_reply
  | ReplayData replay_resolution
  | UserData json
  | ErrorsData errors_reply
  | NetworkData network_reply

definition getPageContextOf :: "browser \<Rightarrow> state \<Rightarrow> page_context \<times> state" where
  \<comment> \<open>\<open>getPageContext()\<close> with its DOM query: \<open>inferOrganizationSlugFromDom()\<close> runs when the
      path gives no organization\<close>
  "getPageContextOf B s =
     (getPageContext (decodeURIComponent B) (current s),
      if truthy (firstPathMatch (decodeURIComponent B) (locationPathname (current s))
                   organizationPatterns)
      then s else snd (dom InferOrganizationSlugFromDom inferredOrganizationSlug s))"

definition lift :: "('a \<Rightarrow> action_data) \<Rightarrow> (string + 'a) \<times> state \<Rightarrow> (string + action_data) \<times> state" where
  "lift wrap r = (map_sum id wrap (fst r), snd r)"

definition runAction :: "browser \<Rightarrow> string \<Rightarrow> state \<Rightarrow> (string + action_data) \<times> state" where
  "runAction B action s =
     (let (ctx, s0) = getPageContextOf B s
      in if action = ''getRawStacktracePrompt'' then lift PromptData (handleRawStacktracePrompt B ctx s0)
         else if action = ''openReplay'' then lift ReplayData (handleOpenReplay B ctx s0)
         else if action = ''getUserDetails'' then lift UserData (handleUserDetails B ctx s0)
         else if action = ''getReplayErrors'' then lift ErrorsData (handleReplayErrors B ctx s0)
         else if action = ''getReplayNetworkErrors''
           then lift NetworkData (handleReplayNetworkErrors B ctx s0)
         else (Inl ''Unsupported action.'', s0))"

record message =
  messageType :: "string option"
  messageAction :: "string option"

record envelope =
  ok :: bool
  error :: "string option"
  payload :: "action_data option"

definition onMessage :: "browser \<Rightarrow> message option \<Rightarrow> state \<Rightarrow> envelope option \<times> state" where
  \<comment> \<open>the listener of \<open>chrome.runtime.onMessage\<close>; the result is what \<open>sendResponse\<close> is
      called with, \<open>None\<close> when the listener returns without answering\<close>
  "onMessage B msg s =
     (case msg of
        None \<Rightarrow> (None, s)
      | Some m \<Rightarrow>
          if messageType m \<noteq> Some ''NIZO_ACTION'' \<or> \<not> truthy (messageAction m) then (None, s)
          else
            (case runAction B (orEmpty (messageAction m)) s of
               (Inr d, s') \<Rightarrow> (Some \<lparr>ok = True, error = None, payload = Some d\<rparr>, s')
             | (Inl err, s') \<Rightarrow> (Some \<lparr>ok = False, error = Some err, payload = None\<rparr>, s')))"

section \<open>Reading a trace\<close>

definition queries :: "dom_query \<Rightarrow> state \<Rightarrow> nat" where
  \<comment> \<open>how often the named DOM query has run so far\<close>
  "queries q s = length (filter (\<lambda>e. e = Query q) (trace s))"

definition isWrite :: "effect \<Rightarrow> bool" where
  \<comment> \<open>the effects that act on the page: a click, a navigation of the history\<close>
  "isWrite e = (case e of Click t \<Rightarrow> True | HistoryBack \<Rightarrow> True | _ \<Rightarrow> False)"

definition writes :: "state \<Rightarrow> effect list" where
  "writes s = filter isWrite (trace s)"

definition start :: "page \<Rightarrow> state" where
  "start pg = \<lparr>current = pg, trace = []\<rparr>"




section \<open>Example pages\<close>

definition blankPage :: page where
  "blankPage =
     \<lparr>locationPathname = ''/'', locationOrigin = ''https://acme.sentry.io'',
      locationHref = ''https://acme.sentry.io/'', historyLength = 1,
      inferredOrganizationSlug = None, replayInDom = None, replayCtaElements = 0,
      pageText = [], issueTitleInDom = None, errorsTabElement = None, networkTabElement = None,
      errorRowElements = [], errorAnchorRowElements = [], errorTextRows = [],
      networkRowElements = [], eventLinks = [], issueLinks = [],
      errorCountInDom = None, networkCountInDom = None, clock = 0\<rparr>"

definition idleBrowser :: browser where
  \<comment> \<open>a page that does not change and an API that cannot be reached\<close>
  "idleBrowser =
     \<lparr>afterWait = (\<lambda>ms pg. pg), afterClick = (\<lambda>t pg. pg), afterBack = (\<lambda>pg. pg),
      respond = (\<lambda>req pg. (Rejected ''Failed to fetch'', pg)),
      decodeURIComponent = Some, encodeURIComponent = (\<lambda>t. t),
      urlHostname = (\<lambda>u. None), urlResolve = (\<lambda>raw base. None),
      segmentRequests = (\<lambda>v. [])\<rparr>"

definition chargeLine :: string where
  "chargeLine = ''POST 503 https://api.example.com/v1/charge 842ms''"

definition chargeRow :: network_row where
  "chargeRow =
     \<lparr>httpMethod = Some ''POST'', status = Some 503, host = Some ''api.example.com'',
      requestUrl = Some ''https://api.example.com/v1/charge'', duration = Some ''842ms'',
      timestamp = None, detailsUrl = None, title = chargeLine\<rparr>"

definition stackSection :: string where
  "stackSection = ''Stack Trace'' @ [CHR 0x0A] @ ''foo.js in handleClick at line 42'' @ [CHR 0x0A]
     @ ''bar.js in onSubmit at line 10 within FormModule''"

definition issuePage :: page where
  "issuePage = blankPage\<lparr>locationPathname := ''/organizations/acme/issues/123/'',
     locationHref := ''https://acme.sentry.io/organizations/acme/issues/123/''\<rparr>"

definition replayPage :: page where
  \<comment> \<open>a replay opened at a path that does not name the organization\<close>
  "replayPage = blankPage\<lparr>locationPathname := ''/replays/abc123/'',
     locationHref := ''https://acme.sentry.io/replays/abc123/?t=12''\<rparr>"

definition bareIssuePage :: page where
  \<comment> \<open>an issue opened at a path that does not name the organization\<close>
  "bareIssuePage = blankPage\<lparr>locationPathname := ''/issues/123/'',
     locationHref := ''https://acme.sentry.io/issues/123/''\<rparr>"

definition exampleLink :: replay_link where
  "exampleLink = \<lparr>linkReplayId = ''abc123'',
     linkReplayUrl = ''https://acme.sentry.io/organizations/acme/replays/abc123/''\<rparr>"

definition renderingBrowser :: browser where
  \<comment> \<open>a page that shows its replay link once 750 ms have passed\<close>
  "renderingBrowser = idleBrowser
     \<lparr>afterWait := (\<lambda>ms pg. pg\<lparr>clock := clock pg + ms,
                              replayInDom := (if 750 \<le> clock pg + ms then Some exampleLink else None)\<rparr>)\<rparr>"

definition detailedChargeRow :: network_row where
  \<comment> \<open>the request of \<open>chargeLine\<close> as a table row of the network tab, with its link\<close>
  "detailedChargeRow = chargeRow
     \<lparr>detailsUrl := Some ''https://acme.sentry.io/replays/abc123/?n_detail=4'',
      title := ''POST 503 https://api.example.com/v1/charge 842ms Details''\<rparr>"

definition networkPage :: page where
  \<comment> \<open>a replay page that shows one request, as a table row and in its text\<close>
  "networkPage = replayPage\<lparr>networkRowElements := [Some detailedChargeRow], pageText := chargeLine\<rparr>"

section \<open>The candidate rows of a page\<close>

definition errorCandidates :: "page \<Rightarrow> error_row list" where
  \<comment> \<open>\<open>[...parsedFromRows, ...parsedFromAnchorRows, ...parsedFromText]\<close> on a page\<close>
  "errorCandidates pg =
     parsedRows (errorRowElements pg) @ parsedRows (errorAnchorRowElements pg) @ errorTextRows pg"

definition networkCandidates :: "browser \<Rightarrow> page \<Rightarrow> network_row list" where
  \<comment> \<open>\<open>[...parsedFromRows, ...parsedFromText]\<close> on a page\<close>
  "networkCandidates B pg =
     parsedRows (networkRowElements pg)
     @ parseReplayNetworkEventsFromPageText (urlHostname B) (pageText pg)"

definition timeoutRow :: error_row where
  "timeoutRow = \<lparr>eventId = Some ''9f3c2a1b7d'', errorTitle = Some ''TimeoutError'',
     issue = Some ''WEB-12'', errorTimestamp = Some ''10:42''\<rparr>"

definition errorsPage :: page where
  \<comment> \<open>a replay page that shows one error, as a table row and in its text\<close>
  "errorsPage = replayPage\<lparr>errorRowElements := [Some timeoutRow], errorTextRows := [timeoutRow]\<rparr>"

definition organizationReplayPage :: page where
  "organizationReplayPage = blankPage\<lparr>locationPathname := ''/organizations/acme/replays/abc123/'',
     locationHref := ''https://acme.sentry.io/organizations/acme/replays/abc123/?t=12''\<rparr>"

definition linkedIssuePage :: page where
  \<comment> \<open>an issue page that shows a link to its replay\<close>
  "linkedIssuePage = issuePage\<lparr>replayInDom := Some exampleLink\<rparr>"

definition actionMessage :: "string \<Rightarrow> message option" where
  \<comment> \<open>\<^verbatim>\<open>{ type: "NIZO_ACTION", action }\<close>\<close>
  "actionMessage action = Some \<lparr>messageType = Some ''NIZO_ACTION'', messageAction = Some action\<rparr>"

definition tabClick :: "click_target \<Rightarrow> tab_element option \<Rightarrow> effect list" where
  \<comment> \<open>the click of \<open>ensureReplayErrorsTabSelected\<close> and \<open>ensureReplayNetworkTabSelected\<close>:
      on a tab that is there and not active\<close>
  "tabClick t el = (case el of None \<Rightarrow> [] | Some tab \<Rightarrow> if \<not> isTabActive tab then [Click t] else [])"





section \<open>The attempts of a polling loop\<close>

fun attemptState ::
    "(state \<Rightarrow> 'a option \<times> state) \<Rightarrow> (state \<Rightarrow> state) \<Rightarrow> nat \<Rightarrow> state \<Rightarrow> state" where
  \<comment> \<open>the state in which attempt \<open>k\<close> begins (attempts count from 0): \<open>k\<close> times the
      producing step and the pause after it\<close>
  "attemptState produce pause 0 s = s"
| "attemptState produce pause (Suc k) s = attemptState produce pause k (pause (snd (produce s)))"

definition emptyBefore ::
    "(state \<Rightarrow> 'a option \<times> state) \<Rightarrow> (state \<Rightarrow> state) \<Rightarrow> nat \<Rightarrow> state \<Rightarrow> bool" where
  \<comment> \<open>the producing step yields nothing in each of the attempts \<open>0, ..., k - 1\<close>\<close>
  "emptyBefore produce pause k s =
     list_all (\<lambda>j. fst (produce (attemptState produce pause j s)) = None) [0 ..< k]"

chapter \<open>Properties\<close>

section \<open>The merge keeps one row for each key\<close>

lemma mapSet_keys:
  "map fst (mapSet k v es) = (if k \<in> set (map fst es) then map fst es else map fst es @ [k])"
  by (induction es) auto

lemma mapSet_lookup: "map_of (mapSet k v es) = (map_of es)(k \<mapsto> v)"
  by (induction es) (auto simp: fun_eq_iff)

lemma mapSet_entries: "set (mapSet k v es) \<subseteq> insert (k, v) (set es)"
  by (induction es) auto

lemma entriesOf_snoc: "entriesOf key (rows @ [r]) = mapSet (key r) r (entriesOf key rows)"
  by (simp add: entriesOf_def)

lemma firstOccurrences_snoc:
  "firstOccurrences (ks @ [k]) = (if k \<in> set ks then firstOccurrences ks else firstOccurrences ks @ [k])"
  by (simp add: firstOccurrences_def)

lemma lastWithKey_snoc:
  "lastWithKey key (rows @ [r]) k = (if key r = k then Some r else lastWithKey key rows k)"
  by (simp add: lastWithKey_def)

lemma entriesOf_keys: "map fst (entriesOf key rows) = firstOccurrences (map key rows)"
proof (induction rows rule: rev_induct)
  case Nil
  show ?case by (simp add: entriesOf_def firstOccurrences_def)
next
  case (snoc r rows)
  then show ?case
    by (simp add: entriesOf_snoc mapSet_keys firstOccurrences_snoc firstOccurrences_def)
qed

lemma entriesOf_lookup: "map_of (entriesOf key rows) k = lastWithKey key rows k"
proof (induction rows rule: rev_induct)
  case Nil
  show ?case by (simp add: entriesOf_def lastWithKey_def)
next
  case (snoc r rows)
  then show ?case
    by (simp add: entriesOf_snoc mapSet_lookup lastWithKey_snoc)
qed

lemma entriesOf_keyed: "(k, v) \<in> set (entriesOf key rows) \<Longrightarrow> key v = k"
proof (induction rows arbitrary: k v rule: rev_induct)
  case Nil
  then show ?case by (simp add: entriesOf_def)
next
  case (snoc r rows)
  then show ?case
    using mapSet_entries [of "key r" r "entriesOf key rows"]
    by (auto simp: entriesOf_snoc)
qed

lemma entriesOf_distinct: "distinct (map fst (entriesOf key rows))"
  by (simp add: entriesOf_keys firstOccurrences_def)

lemma uniqueRows_entries: "uniqueRows key rows = map snd (entriesOf key rows)"
  by (simp add: uniqueRows_def mapValues_def entriesOf_def)

lemma map_filter_agree:
  "\<forall>x \<in> set xs. f x = g x \<Longrightarrow> List.map_filter f xs = List.map_filter g xs"
  by (induction xs) (simp_all add: List.map_filter_simps split: option.split)

lemma map_filter_lookup:
  "distinct (map fst es) \<Longrightarrow> List.map_filter (map_of es) (map fst es) = map snd es"
proof (induction es)
  case Nil
  show ?case by (simp add: List.map_filter_simps)
next
  case (Cons e es)
  obtain k v where e: "e = (k, v)" by (cases e)
  from Cons.prems e have fresh: "k \<notin> set (map fst es)" and d: "distinct (map fst es)"
    by simp_all
  have "List.map_filter (map_of (e # es)) (map fst es) = List.map_filter (map_of es) (map fst es)"
  proof (rule map_filter_agree, rule ballI)
    fix x assume "x \<in> set (map fst es)"
    with fresh have "x \<noteq> k" by blast
    then show "map_of (e # es) x = map_of es x" by (simp add: e)
  qed
  with Cons.IH [OF d]
  have rest: "List.map_filter (map_of (e # es)) (map fst es) = map snd es"
    by (simp only:)
  have "map_of (e # es) k = Some v"
    by (simp add: e)
  then have "List.map_filter (map_of (e # es)) (k # map fst es)
               = v # List.map_filter (map_of (e # es)) (map fst es)"
    by (simp only: List.map_filter_simps option.case)
  with rest show ?case
    by (simp add: e del: map_of.simps)
qed

lemma uniqueRows_last_wins:
  "uniqueRows key rows = List.map_filter (lastWithKey key rows) (firstOccurrences (map key rows))"
proof -
  have "List.map_filter (map_of (entriesOf key rows)) (map fst (entriesOf key rows))
          = map snd (entriesOf key rows)"
    by (rule map_filter_lookup) (rule entriesOf_distinct)
  moreover have "map_of (entriesOf key rows) = lastWithKey key rows"
    by (rule ext) (rule entriesOf_lookup)
  ultimately show ?thesis
    by (simp add: uniqueRows_entries entriesOf_keys)
qed

lemma uniqueRows_keys: "map key (uniqueRows key rows) = firstOccurrences (map key rows)"
proof -
  have "map key (map snd (entriesOf key rows)) = map fst (entriesOf key rows)"
    by (auto dest: entriesOf_keyed)
  then show ?thesis
    by (simp add: uniqueRows_entries entriesOf_keys del: map_map)
qed

lemma uniqueRows_keys_distinct: "distinct (map key (uniqueRows key rows))"
  by (simp add: uniqueRows_keys firstOccurrences_def)

section \<open>Evaluating the text strategies\<close>

lemma chargeLine_parsed:
  "parseReplayNetworkEventsFromPageText hostname chargeLine = [chargeRow]"
  unfolding chargeLine_def chargeRow_def by code_simp

lemma stackSection_normalized:
  "toRawStacktraceFromSection stackSection =
     Some (''  #0      handleClick (foo.js:42)'' @ [CHR 0x0A]
           @ ''  #1      onSubmit (package:FormModule/bar.js:10)'')"
  unfolding stackSection_def by code_simp


text \<open>
  C8, as the spec words it: the two frames come out as \<open>#0  handleClick (foo.js:42)\<close> and
  \<open>#1  onSubmit (package:FormModule/bar.js:10)\<close>. The lines the code writes are not these.
\<close>

theorem stack_frames_not_as_quoted:
  "map_option (splitOn (CHR 0x0A))
     (toRawStacktraceFromSection
        (''Stack Trace'' @ [CHR 0x0A] @ ''foo.js in handleClick at line 42'' @ [CHR 0x0A]
         @ ''bar.js in onSubmit at line 10 within FormModule''))
   \<noteq> Some [''#0  handleClick (foo.js:42)'', ''#1  onSubmit (package:FormModule/bar.js:10)'']"
  using stackSection_normalized by (simp add: stackSection_def)

text \<open>
  C8, amended. The first pretty frame met comes first: the output has two lines, the
  \<open>handleClick\<close> frame with index 0 and then the \<open>onSubmit\<close> frame with index 1 and its module
  qualifier; each line is two spaces, \<open>#index\<close>, six spaces, the function name and the
  location in parentheses.
\<close>

theorem stack_frames_in_order_met:
  "map_option (splitOn (CHR 0x0A))
     (toRawStacktraceFromSection
        (''Stack Trace'' @ [CHR 0x0A] @ ''foo.js in handleClick at line 42'' @ [CHR 0x0A]
         @ ''bar.js in onSubmit at line 10 within FormModule''))
   = Some [''  #0      handleClick (foo.js:42)'',
           ''  #1      onSubmit (package:FormModule/bar.js:10)'']"
  using stackSection_normalized by (simp add: stackSection_def)

section \<open>Page context\<close>

lemma issuePage_context:
  "getPageContext Some issuePage =
     \<lparr>origin = ''https://acme.sentry.io'', organizationSlug = Some ''acme'',
      issueId = Some ''123'', replayId = None, pageType = Issue\<rparr>"
  unfolding issuePage_def blankPage_def by code_simp

lemma replayPage_context:
  "getPageContext Some replayPage =
     \<lparr>origin = ''https://acme.sentry.io'', organizationSlug = None,
      issueId = None, replayId = Some ''abc123'', pageType = Replay\<rparr>"
  unfolding replayPage_def blankPage_def by code_simp

lemma bareIssuePage_context:
  "getPageContext Some bareIssuePage =
     \<lparr>origin = ''https://acme.sentry.io'', organizationSlug = None,
      issueId = Some ''123'', replayId = None, pageType = Issue\<rparr>"
  unfolding bareIssuePage_def blankPage_def by code_simp

lemma blankPage_context:
  "getPageContext Some blankPage =
     \<lparr>origin = ''https://acme.sentry.io'', organizationSlug = None,
      issueId = None, replayId = None, pageType = Other\<rparr>"
  unfolding blankPage_def by code_simp

text \<open>
  C2. Whatever the page, the context derived from it has an issue id and no replay id when
  its type is \<open>issue\<close>, a replay id and no issue id when its type is \<open>replay\<close>, and neither
  when its type is \<open>other\<close>.
\<close>

theorem page_context_ids_match_type:
  "(pageType (getPageContext dec pg) = Issue \<longrightarrow>
      issueId (getPageContext dec pg) \<noteq> None \<and> replayId (getPageContext dec pg) = None)
   \<and> (pageType (getPageContext dec pg) = Replay \<longrightarrow>
      replayId (getPageContext dec pg) \<noteq> None \<and> issueId (getPageContext dec pg) = None)
   \<and> (pageType (getPageContext dec pg) = Other \<longrightarrow>
      issueId (getPageContext dec pg) = None \<and> replayId (getPageContext dec pg) = None)"
  by (auto simp: getPageContext_def Let_def truthy_def orNull_def split: option.splits if_splits)

theorem page_context_ids_match_type_witness:
  "pageType (getPageContext Some issuePage) = Issue
   \<and> issueId (getPageContext Some issuePage) \<noteq> None
   \<and> replayId (getPageContext Some issuePage) = None
   \<and> pageType (getPageContext Some replayPage) = Replay
   \<and> replayId (getPageContext Some replayPage) \<noteq> None
   \<and> issueId (getPageContext Some replayPage) = None
   \<and> pageType (getPageContext Some blankPage) = Other
   \<and> issueId (getPageContext Some blankPage) = None
   \<and> replayId (getPageContext Some blankPage) = None"
  using page_context_ids_match_type [of Some issuePage]
        page_context_ids_match_type [of Some replayPage]
        page_context_ids_match_type [of Some blankPage]
  by (simp add: issuePage_context replayPage_context blankPage_context)

section \<open>Polling\<close>
declare pollFrom.simps [simp del]
declare clickPollFrom.simps [simp del]

lemma pollFrom_from_attempt:
  "fst (pollFrom produce pause n a s) = Some r \<Longrightarrow>
     \<exists>s0. produce s0 = (Some r, snd (pollFrom produce pause n a s))"
proof (induction produce pause n a s rule: pollFrom.induct)
  case (1 produce pause maxAttempts attempt s)
  show ?case
  proof (cases "attempt < maxAttempts")
    case False
    with "1.prems" show ?thesis by (simp add: pollFrom.simps [of produce pause maxAttempts attempt s])
  next
    case True
    obtain r0 s' where p: "produce s = (r0, s')" by (cases "produce s")
    show ?thesis
    proof (cases r0)
      case (Some x)
      with p True "1.prems" show ?thesis by (auto simp: pollFrom.simps [of produce pause maxAttempts attempt s])
    next
      case None
      with p True "1.prems"
      have next_attempt: "pollFrom produce pause maxAttempts attempt s
                            = pollFrom produce pause maxAttempts (Suc attempt) (pause s')"
        by (simp add: pollFrom.simps [of produce pause maxAttempts attempt s])
      with "1.prems" "1.IH" [OF True p [symmetric] None] show ?thesis
        by simp
    qed
  qed
qed

lemma pollFrom_counts:
  "\<forall>s. cnt (snd (produce s)) = Suc (cnt s) \<Longrightarrow> \<forall>s. cnt (pause s) = cnt s \<Longrightarrow>
     cnt (snd (pollFrom produce pause n a s)) \<le> cnt s + (n - a)
       \<and> (fst (pollFrom produce pause n a s) = None \<longrightarrow>
            cnt (snd (pollFrom produce pause n a s)) = cnt s + (n - a))"
proof (induction produce pause n a s rule: pollFrom.induct)
  case (1 produce pause maxAttempts attempt s)
  note step = "1.prems"(1) and keep = "1.prems"(2)
  show ?case
  proof (cases "attempt < maxAttempts")
    case False
    then show ?thesis by (simp add: pollFrom.simps [of produce pause maxAttempts attempt s])
  next
    case True
    obtain r0 s' where p: "produce s = (r0, s')" by (cases "produce s")
    from step [rule_format, of s] p have s': "cnt s' = Suc (cnt s)" by simp
    show ?thesis
    proof (cases r0)
      case (Some x)
      with p True s' show ?thesis
        by (simp add: pollFrom.simps [of produce pause maxAttempts attempt s])
    next
      case None
      with p True
      have next_attempt: "pollFrom produce pause maxAttempts attempt s
                            = pollFrom produce pause maxAttempts (Suc attempt) (pause s')"
        by (simp add: pollFrom.simps [of produce pause maxAttempts attempt s])
      from "1.IH" [OF True p [symmetric] None step keep] s' keep [rule_format, of s'] True
      show ?thesis
        unfolding next_attempt by auto
    qed
  qed
qed

lemma pollFrom_keeps:
  "\<forall>s. f (snd (produce s)) = f s \<Longrightarrow> \<forall>s. f (pause s) = f s \<Longrightarrow>
     f (snd (pollFrom produce pause n a s)) = f s"
proof (induction produce pause n a s rule: pollFrom.induct)
  case (1 produce pause maxAttempts attempt s)
  note step = "1.prems"(1) and keep = "1.prems"(2)
  show ?case
  proof (cases "attempt < maxAttempts")
    case False
    then show ?thesis by (simp add: pollFrom.simps [of produce pause maxAttempts attempt s])
  next
    case True
    obtain r0 s' where p: "produce s = (r0, s')" by (cases "produce s")
    from step [rule_format, of s] p have s': "f s' = f s" by simp
    show ?thesis
    proof (cases r0)
      case (Some x)
      with p True s' show ?thesis
        by (simp add: pollFrom.simps [of produce pause maxAttempts attempt s])
    next
      case None
      with p True
      have next_attempt: "pollFrom produce pause maxAttempts attempt s
                            = pollFrom produce pause maxAttempts (Suc attempt) (pause s')"
        by (simp add: pollFrom.simps [of produce pause maxAttempts attempt s])
      from "1.IH" [OF True p [symmetric] None step keep] s' keep [rule_format, of s']
      show ?thesis
        unfolding next_attempt by simp
    qed
  qed
qed


section \<open>Effects of the primitive steps\<close>

lemma dom_result [simp]: "fst (dom q f s) = f (current s)"
  by (simp add: dom_def)

lemma dom_page [simp]: "current (snd (dom q f s)) = current s"
  by (simp add: dom_def)

lemma dom_trace [simp]: "trace (snd (dom q f s)) = trace s @ [Query q]"
  by (simp add: dom_def)

lemma dom_queries [simp]:
  "queries q (snd (dom q' f s)) = (if q' = q then Suc (queries q s) else queries q s)"
  by (auto simp: queries_def)

lemma dom_writes [simp]: "writes (snd (dom q f s)) = writes s"
  by (simp add: writes_def isWrite_def)

lemma wait_queries [simp]: "queries q (wait B ms s) = queries q s"
  by (simp add: queries_def wait_def)

lemma wait_writes [simp]: "writes (wait B ms s) = writes s"
  by (simp add: writes_def wait_def isWrite_def)

lemma click_queries [simp]: "queries q (click B t s) = queries q s"
  by (simp add: queries_def click_def)

lemma click_writes [simp]: "writes (click B t s) = writes s @ [Click t]"
  by (simp add: writes_def click_def isWrite_def)

lemma historyBack_writes [simp]: "writes (historyBack B s) = writes s @ [HistoryBack]"
  by (simp add: writes_def historyBack_def isWrite_def)

lemma sentryGet_writes [simp]: "writes (snd (sentryGet B ctx path query s)) = writes s"
  by (simp add: writes_def sentryGet_def Let_def isWrite_def split: response.split)

lemma sentryGet_queries [simp]: "queries q (snd (sentryGet B ctx path query s)) = queries q s"
  by (simp add: queries_def sentryGet_def Let_def split: response.split)

section \<open>The row loops\<close>

lemma errorRowsAttempt_result:
  "fst (errorRowsAttempt s) =
     (if errorCandidates (current s) = [] then None
      else Some (uniqueRows errorKey (errorCandidates (current s))))"
  by (simp add: errorRowsAttempt_def errorCandidates_def Let_def case_prod_beta)

lemma errorRowsAttempt_page [simp]: "current (snd (errorRowsAttempt s)) = current s"
  by (simp add: errorRowsAttempt_def Let_def case_prod_beta)

lemma errorRowsAttempt_queries [simp]:
  "queries GetReplayErrorRows (snd (errorRowsAttempt s)) = Suc (queries GetReplayErrorRows s)"
  by (simp add: errorRowsAttempt_def Let_def case_prod_beta)

lemma networkRowsAttempt_result:
  "fst (networkRowsAttempt B s) =
     (if networkCandidates B (current s) = [] then None
      else Some (uniqueRows networkKey (networkCandidates B (current s))))"
  by (simp add: networkRowsAttempt_def networkCandidates_def Let_def case_prod_beta)

lemma networkRowsAttempt_page [simp]: "current (snd (networkRowsAttempt B s)) = current s"
  by (simp add: networkRowsAttempt_def Let_def case_prod_beta)

lemma networkRowsAttempt_queries [simp]:
  "queries GetReplayNetworkRows (snd (networkRowsAttempt B s)) = Suc (queries GetReplayNetworkRows s)"
  by (simp add: networkRowsAttempt_def Let_def case_prod_beta)

lemma extractReplayFromDom_queries [simp]:
  "queries ExtractReplayFromDom (snd (extractReplayFromDom s)) = Suc (queries ExtractReplayFromDom s)"
  by (simp add: extractReplayFromDom_def)

lemma errorLoop_rows:
  "fst (getReplayErrorEventsFromDomWithRetry B s) = rows \<Longrightarrow> rows \<noteq> [] \<Longrightarrow>
     rows = uniqueRows errorKey
              (errorCandidates (current (snd (getReplayErrorEventsFromDomWithRetry B s))))"
proof -
  assume res: "fst (getReplayErrorEventsFromDomWithRetry B s) = rows" and ne: "rows \<noteq> []"
  let ?p = "pollFrom errorRowsAttempt (wait B 250) 12 0 (ensureReplayErrorsTabSelected B s)"
  from res ne have some: "fst ?p = Some rows" and st: "snd (getReplayErrorEventsFromDomWithRetry B s) = snd ?p"
    by (auto simp: getReplayErrorEventsFromDomWithRetry_def split: prod.splits option.splits)
  from pollFrom_from_attempt [OF some] obtain s0 where s0: "errorRowsAttempt s0 = (Some rows, snd ?p)"
    by blast
  from s0 have "fst (errorRowsAttempt s0) = Some rows" and "current (snd (errorRowsAttempt s0)) = current (snd ?p)"
    by simp_all
  then show ?thesis
    by (simp add: errorRowsAttempt_result st split: if_splits)
qed

lemma networkLoop_rows:
  "fst (getReplayNetworkEventsFromDomWithRetry B s) = rows \<Longrightarrow> rows \<noteq> [] \<Longrightarrow>
     rows = uniqueRows networkKey
              (networkCandidates B (current (snd (getReplayNetworkEventsFromDomWithRetry B s))))"
proof -
  assume res: "fst (getReplayNetworkEventsFromDomWithRetry B s) = rows" and ne: "rows \<noteq> []"
  let ?p = "pollFrom (networkRowsAttempt B) (wait B 250) 12 0 (ensureReplayNetworkTabSelected B s)"
  from res ne have some: "fst ?p = Some rows" and st: "snd (getReplayNetworkEventsFromDomWithRetry B s) = snd ?p"
    by (auto simp: getReplayNetworkEventsFromDomWithRetry_def split: prod.splits option.splits)
  from pollFrom_from_attempt [OF some] obtain s0 where s0: "networkRowsAttempt B s0 = (Some rows, snd ?p)"
    by blast
  from s0 have "fst (networkRowsAttempt B s0) = Some rows"
    and "current (snd (networkRowsAttempt B s0)) = current (snd ?p)"
    by simp_all
  then show ?thesis
    by (simp add: networkRowsAttempt_result st split: if_splits)
qed

text \<open>
  C9. The rows that the error-row loop and the network-row loop return have pairwise
  different composite keys.
\<close>

theorem merged_rows_have_distinct_keys:
  "distinct (map errorKey (fst (getReplayErrorEventsFromDomWithRetry B s)))
   \<and> distinct (map networkKey (fst (getReplayNetworkEventsFromDomWithRetry B s)))"
proof
  show "distinct (map errorKey (fst (getReplayErrorEventsFromDomWithRetry B s)))"
  proof (cases "fst (getReplayErrorEventsFromDomWithRetry B s) = []")
    case True
    then show ?thesis by simp
  next
    case False
    from errorLoop_rows [OF refl False] show ?thesis
      by (metis uniqueRows_keys_distinct)
  qed
  show "distinct (map networkKey (fst (getReplayNetworkEventsFromDomWithRetry B s)))"
  proof (cases "fst (getReplayNetworkEventsFromDomWithRetry B s) = []")
    case True
    then show ?thesis by simp
  next
    case False
    from networkLoop_rows [OF refl False] show ?thesis
      by (metis uniqueRows_keys_distinct)
  qed
qed

section \<open>Which duplicate the merge keeps\<close>

lemma detailed_same_key: "networkKey detailedChargeRow = networkKey chargeRow"
  by (simp add: networkKey_def detailedChargeRow_def chargeRow_def)

lemma detailed_merged: "uniqueRows networkKey [detailedChargeRow, chargeRow] = [chargeRow]"
  by (simp add: uniqueRows_def mapValues_def detailed_same_key)

lemma networkPage_candidates: "networkCandidates B networkPage = [detailedChargeRow, chargeRow]"
  by (simp add: networkCandidates_def networkPage_def replayPage_def blankPage_def parsedRows_def
        List.map_filter_simps chargeLine_parsed)

lemma networkPage_rows:
  "fst (getReplayNetworkEventsFromDomWithRetry B (start networkPage)) = [chargeRow]"
  by (simp add: getReplayNetworkEventsFromDomWithRetry_def ensureReplayNetworkTabSelected_def
      pollFrom.simps [of _ _ 12 0] networkRowsAttempt_result detailed_merged
      networkPage_candidates case_prod_beta start_def split: option.split)
     (simp add: networkPage_def replayPage_def blankPage_def dom_def)

lemma errorsPage_rows:
  "fst (getReplayErrorEventsFromDomWithRetry B (start errorsPage)) = [timeoutRow]"
  by (simp add: getReplayErrorEventsFromDomWithRetry_def ensureReplayErrorsTabSelected_def
      pollFrom.simps [of _ _ 12 0] errorRowsAttempt_result errorCandidates_def parsedRows_def
      List.map_filter_simps uniqueRows_def mapValues_def
      case_prod_beta start_def errorsPage_def replayPage_def blankPage_def dom_def
      split: option.split)

text \<open>
  C1, as the spec words it: of two rows with one composite key the first is kept and the
  later one dropped. On \<open>networkPage\<close> the table row of the request comes first and its text
  row second, with the same key; the loop returns the text row, and the link of the table
  row is lost.
\<close>

theorem first_duplicate_is_not_kept:
  "networkCandidates idleBrowser networkPage = [detailedChargeRow, chargeRow]
   \<and> networkKey detailedChargeRow = networkKey chargeRow
   \<and> fst (getReplayNetworkEventsFromDomWithRetry idleBrowser (start networkPage)) = [chargeRow]
   \<and> detailsUrl detailedChargeRow \<noteq> detailsUrl chargeRow"
  by (simp add: networkPage_candidates detailed_same_key networkPage_rows)
     (simp add: detailedChargeRow_def chargeRow_def)

text \<open>
  C1, amended. The merge keys each row by the join of its identifying fields; its result has
  one row for each key, at the place where the key first occurred, and that row is the last
  row with the key: a later duplicate replaces the earlier one. This is what both row loops
  return when they return rows, for the candidate rows of the page at that moment.
\<close>

theorem last_duplicate_wins:
  "uniqueRows key rows = List.map_filter (lastWithKey key rows) (firstOccurrences (map key rows))
   \<and> (fst (getReplayErrorEventsFromDomWithRetry B s) \<noteq> [] \<longrightarrow>
        fst (getReplayErrorEventsFromDomWithRetry B s) =
          (let parsed = errorCandidates (current (snd (getReplayErrorEventsFromDomWithRetry B s)))
           in List.map_filter (lastWithKey errorKey parsed) (firstOccurrences (map errorKey parsed))))
   \<and> (fst (getReplayNetworkEventsFromDomWithRetry B s) \<noteq> [] \<longrightarrow>
        fst (getReplayNetworkEventsFromDomWithRetry B s) =
          (let parsed = networkCandidates B (current (snd (getReplayNetworkEventsFromDomWithRetry B s)))
           in List.map_filter (lastWithKey networkKey parsed)
                (firstOccurrences (map networkKey parsed))))"
proof (intro conjI impI)
  show "uniqueRows key rows = List.map_filter (lastWithKey key rows) (firstOccurrences (map key rows))"
    by (rule uniqueRows_last_wins)
next
  assume "fst (getReplayErrorEventsFromDomWithRetry B s) \<noteq> []"
  from errorLoop_rows [OF refl this] show "fst (getReplayErrorEventsFromDomWithRetry B s) =
          (let parsed = errorCandidates (current (snd (getReplayErrorEventsFromDomWithRetry B s)))
           in List.map_filter (lastWithKey errorKey parsed) (firstOccurrences (map errorKey parsed)))"
    by (simp add: Let_def uniqueRows_last_wins [symmetric])
next
  assume "fst (getReplayNetworkEventsFromDomWithRetry B s) \<noteq> []"
  from networkLoop_rows [OF refl this] show "fst (getReplayNetworkEventsFromDomWithRetry B s) =
          (let parsed = networkCandidates B (current (snd (getReplayNetworkEventsFromDomWithRetry B s)))
           in List.map_filter (lastWithKey networkKey parsed)
                (firstOccurrences (map networkKey parsed)))"
    by (simp add: Let_def uniqueRows_last_wins [symmetric])
qed

theorem last_duplicate_wins_witness:
  "List.map_filter (lastWithKey networkKey [detailedChargeRow, chargeRow])
        (firstOccurrences (map networkKey [detailedChargeRow, chargeRow])) = [chargeRow]
   \<and> fst (getReplayErrorEventsFromDomWithRetry idleBrowser (start errorsPage)) \<noteq> []
   \<and> (let parsed = errorCandidates
                       (current (snd (getReplayErrorEventsFromDomWithRetry idleBrowser (start errorsPage))))
      in List.map_filter (lastWithKey errorKey parsed) (firstOccurrences (map errorKey parsed)))
       = [timeoutRow]
   \<and> fst (getReplayNetworkEventsFromDomWithRetry idleBrowser (start networkPage)) \<noteq> []
   \<and> (let parsed = networkCandidates idleBrowser
                       (current (snd (getReplayNetworkEventsFromDomWithRetry idleBrowser (start networkPage))))
      in List.map_filter (lastWithKey networkKey parsed) (firstOccurrences (map networkKey parsed)))
       = [chargeRow]"
proof -
  note all = last_duplicate_wins [of networkKey "[detailedChargeRow, chargeRow]" idleBrowser]
  have e: "fst (getReplayErrorEventsFromDomWithRetry idleBrowser (start errorsPage)) \<noteq> []"
    by (simp add: errorsPage_rows)
  have n: "fst (getReplayNetworkEventsFromDomWithRetry idleBrowser (start networkPage)) \<noteq> []"
    by (simp add: networkPage_rows)
  from all [of "start errorsPage", THEN conjunct1]
  have "List.map_filter (lastWithKey networkKey [detailedChargeRow, chargeRow])
          (firstOccurrences (map networkKey [detailedChargeRow, chargeRow])) = [chargeRow]"
    by (simp only: detailed_merged)
  moreover from all [of "start errorsPage", THEN conjunct2, THEN conjunct1, rule_format, OF e]
  have "(let parsed = errorCandidates
                       (current (snd (getReplayErrorEventsFromDomWithRetry idleBrowser (start errorsPage))))
      in List.map_filter (lastWithKey errorKey parsed) (firstOccurrences (map errorKey parsed)))
       = [timeoutRow]"
    by (simp only: errorsPage_rows)
  moreover from all [of "start networkPage", THEN conjunct2, THEN conjunct2, rule_format, OF n]
  have "(let parsed = networkCandidates idleBrowser
                       (current (snd (getReplayNetworkEventsFromDomWithRetry idleBrowser (start networkPage))))
      in List.map_filter (lastWithKey networkKey parsed) (firstOccurrences (map networkKey parsed)))
       = [chargeRow]"
    by (simp only: networkPage_rows)
  ultimately show ?thesis
    using e n by blast
qed

section \<open>Polling within the attempts\<close>

lemma ensureErrorsTab_rowQueries [simp]:
  "queries GetReplayErrorRows (ensureReplayErrorsTabSelected B s) = queries GetReplayErrorRows s"
  by (simp add: ensureReplayErrorsTabSelected_def case_prod_beta split: option.split)

lemma ensureNetworkTab_rowQueries [simp]:
  "queries GetReplayNetworkRows (ensureReplayNetworkTabSelected B s) = queries GetReplayNetworkRows s"
  by (simp add: ensureReplayNetworkTabSelected_def case_prod_beta split: option.split)

lemma errorLoop_state:
  "snd (getReplayErrorEventsFromDomWithRetry B s)
     = snd (pollFrom errorRowsAttempt (wait B 250) 12 0 (ensureReplayErrorsTabSelected B s))"
  by (simp add: getReplayErrorEventsFromDomWithRetry_def split: prod.split option.split)

lemma networkLoop_state:
  "snd (getReplayNetworkEventsFromDomWithRetry B s)
     = snd (pollFrom (networkRowsAttempt B) (wait B 250) 12 0 (ensureReplayNetworkTabSelected B s))"
  by (simp add: getReplayNetworkEventsFromDomWithRetry_def split: prod.split option.split)

lemma linkPoll_counts:
  "queries ExtractReplayFromDom (snd (pollFrom extractReplayFromDom (wait B 250) n a s))
      \<le> queries ExtractReplayFromDom s + (n - a)
   \<and> (fst (pollFrom extractReplayFromDom (wait B 250) n a s) = None \<longrightarrow>
        queries ExtractReplayFromDom (snd (pollFrom extractReplayFromDom (wait B 250) n a s))
          = queries ExtractReplayFromDom s + (n - a))"
  by (rule pollFrom_counts) simp_all

lemma errorPoll_counts:
  "queries GetReplayErrorRows (snd (pollFrom errorRowsAttempt (wait B 250) n a s))
      \<le> queries GetReplayErrorRows s + (n - a)
   \<and> (fst (pollFrom errorRowsAttempt (wait B 250) n a s) = None \<longrightarrow>
        queries GetReplayErrorRows (snd (pollFrom errorRowsAttempt (wait B 250) n a s))
          = queries GetReplayErrorRows s + (n - a))"
  by (rule pollFrom_counts) simp_all

lemma networkPoll_counts:
  "queries GetReplayNetworkRows (snd (pollFrom (networkRowsAttempt B) (wait B 250) n a s))
      \<le> queries GetReplayNetworkRows s + (n - a)
   \<and> (fst (pollFrom (networkRowsAttempt B) (wait B 250) n a s) = None \<longrightarrow>
        queries GetReplayNetworkRows (snd (pollFrom (networkRowsAttempt B) (wait B 250) n a s))
          = queries GetReplayNetworkRows s + (n - a))"
  by (rule pollFrom_counts) simp_all

lemma emptyBefore_0 [simp]: "emptyBefore produce pause 0 s"
  by (simp add: emptyBefore_def)

lemma emptyBefore_Suc:
  "emptyBefore produce pause (Suc k) s
     = (fst (produce s) = None \<and> emptyBefore produce pause k (pause (snd (produce s))))"
proof -
  have eq: "[0 ..< Suc k] = 0 # map Suc [0 ..< k]"
    by (simp add: upt_conv_Cons map_Suc_upt del: upt_Suc)
  have "emptyBefore produce pause (Suc k) s
          = list_all (\<lambda>j. fst (produce (attemptState produce pause j s)) = None)
              (0 # map Suc [0 ..< k])"
    by (simp only: emptyBefore_def eq)
  also have "\<dots> = (fst (produce s) = None
                    \<and> emptyBefore produce pause k (pause (snd (produce s))))"
    by (simp add: emptyBefore_def list.pred_map comp_def del: upt_Suc)
  finally show ?thesis .
qed

lemma attemptState_counts:
  "\<forall>s. cnt (snd (produce s)) = Suc (cnt s) \<Longrightarrow> \<forall>s. cnt (pause s) = cnt s \<Longrightarrow>
     cnt (attemptState produce pause k s) = cnt s + k"
  by (induction k arbitrary: s) simp_all

lemma pollFrom_first_nonempty:
  "k < n - a \<Longrightarrow> emptyBefore produce pause k s \<Longrightarrow>
   fst (produce (attemptState produce pause k s)) \<noteq> None \<Longrightarrow>
     pollFrom produce pause n a s = produce (attemptState produce pause k s)"
proof (induction k arbitrary: a s)
  case 0
  then obtain r s' where "produce s = (Some r, s')"
    by (cases "produce s") auto
  with 0 show ?case
    by (simp add: pollFrom.simps [of produce pause n a s])
next
  case (Suc k)
  from Suc.prems(2) have e: "fst (produce s) = None"
      and rest: "emptyBefore produce pause k (pause (snd (produce s)))"
    by (simp_all add: emptyBefore_Suc)
  from Suc.prems(1) have a: "a < n" and k: "k < n - Suc a"
    by simp_all
  from e a have "pollFrom produce pause n a s
                   = pollFrom produce pause n (Suc a) (pause (snd (produce s)))"
    by (cases "produce s") (simp add: pollFrom.simps [of produce pause n a s])
  also from Suc.IH [OF k rest] Suc.prems(3)
  have "\<dots> = produce (attemptState produce pause k (pause (snd (produce s))))"
    by simp
  finally show ?case by simp
qed

lemma pollFrom_all_empty:
  "emptyBefore produce pause (n - a) s \<Longrightarrow>
     pollFrom produce pause n a s = (None, attemptState produce pause (n - a) s)"
proof (induction "n - a" arbitrary: a s)
  case 0
  then show ?case
    by (simp add: pollFrom.simps [of produce pause n a s])
next
  case (Suc m)
  from Suc.hyps(2) have a: "a < n" and m: "m = n - Suc a" and na: "n - a = Suc (n - Suc a)"
    by simp_all
  from Suc.prems na have e: "fst (produce s) = None"
      and rest: "emptyBefore produce pause (n - Suc a) (pause (snd (produce s)))"
    by (simp_all add: emptyBefore_Suc)
  from e a have "pollFrom produce pause n a s
                   = pollFrom produce pause n (Suc a) (pause (snd (produce s)))"
    by (cases "produce s") (simp add: pollFrom.simps [of produce pause n a s])
  also from Suc.hyps(1) [OF m rest]
  have "\<dots> = (None, attemptState produce pause (n - Suc a) (pause (snd (produce s))))" .
  finally show ?case
    by (simp add: na)
qed

lemma pollFrom_returns_first:
  assumes step: "\<forall>s. cnt (snd (produce s)) = Suc (cnt s)"
      and keep: "\<forall>s. cnt (pause s) = cnt s"
  shows "(\<forall>k < n. emptyBefore produce pause k s
             \<and> fst (produce (attemptState produce pause k s)) \<noteq> None \<longrightarrow>
             pollFrom produce pause n 0 s = produce (attemptState produce pause k s)
             \<and> cnt (snd (pollFrom produce pause n 0 s)) = cnt s + Suc k)
       \<and> (emptyBefore produce pause n s \<longrightarrow>
             pollFrom produce pause n 0 s = (None, attemptState produce pause n s)
             \<and> cnt (snd (pollFrom produce pause n 0 s)) = cnt s + n)"
proof (intro conjI allI impI)
  fix k
  assume k: "k < n"
    and h: "emptyBefore produce pause k s \<and> fst (produce (attemptState produce pause k s)) \<noteq> None"
  from k h pollFrom_first_nonempty [of k n 0 produce pause s]
  show r: "pollFrom produce pause n 0 s = produce (attemptState produce pause k s)"
    by simp
  from step [rule_format, of "attemptState produce pause k s"]
       attemptState_counts [OF step keep, of k s]
  show "cnt (snd (pollFrom produce pause n 0 s)) = cnt s + Suc k"
    by (simp add: r)
next
  assume h: "emptyBefore produce pause n s"
  with pollFrom_all_empty [of produce pause n 0 s]
  show r: "pollFrom produce pause n 0 s = (None, attemptState produce pause n s)"
    by simp
  from attemptState_counts [OF step keep, of n s]
  show "cnt (snd (pollFrom produce pause n 0 s)) = cnt s + n"
    by (simp add: r)
qed

lemma linkPoll_returns_first:
  "(\<forall>k < n. emptyBefore extractReplayFromDom (wait B 250) k s
        \<and> fst (extractReplayFromDom (attemptState extractReplayFromDom (wait B 250) k s)) \<noteq> None \<longrightarrow>
        pollFrom extractReplayFromDom (wait B 250) n 0 s
          = extractReplayFromDom (attemptState extractReplayFromDom (wait B 250) k s)
        \<and> queries ExtractReplayFromDom (snd (pollFrom extractReplayFromDom (wait B 250) n 0 s))
          = queries ExtractReplayFromDom s + Suc k)
   \<and> (emptyBefore extractReplayFromDom (wait B 250) n s \<longrightarrow>
        pollFrom extractReplayFromDom (wait B 250) n 0 s
          = (None, attemptState extractReplayFromDom (wait B 250) n s)
        \<and> queries ExtractReplayFromDom (snd (pollFrom extractReplayFromDom (wait B 250) n 0 s))
          = queries ExtractReplayFromDom s + n)"
  by (rule pollFrom_returns_first) simp_all

lemma errorPoll_returns_first:
  "(\<forall>k < n. emptyBefore errorRowsAttempt (wait B 250) k s
        \<and> fst (errorRowsAttempt (attemptState errorRowsAttempt (wait B 250) k s)) \<noteq> None \<longrightarrow>
        pollFrom errorRowsAttempt (wait B 250) n 0 s
          = errorRowsAttempt (attemptState errorRowsAttempt (wait B 250) k s)
        \<and> queries GetReplayErrorRows (snd (pollFrom errorRowsAttempt (wait B 250) n 0 s))
          = queries GetReplayErrorRows s + Suc k)
   \<and> (emptyBefore errorRowsAttempt (wait B 250) n s \<longrightarrow>
        pollFrom errorRowsAttempt (wait B 250) n 0 s
          = (None, attemptState errorRowsAttempt (wait B 250) n s)
        \<and> queries GetReplayErrorRows (snd (pollFrom errorRowsAttempt (wait B 250) n 0 s))
          = queries GetReplayErrorRows s + n)"
  by (rule pollFrom_returns_first) simp_all

lemma networkPoll_returns_first:
  "(\<forall>k < n. emptyBefore (networkRowsAttempt B) (wait B 250) k s
        \<and> fst (networkRowsAttempt B (attemptState (networkRowsAttempt B) (wait B 250) k s)) \<noteq> None \<longrightarrow>
        pollFrom (networkRowsAttempt B) (wait B 250) n 0 s
          = networkRowsAttempt B (attemptState (networkRowsAttempt B) (wait B 250) k s)
        \<and> queries GetReplayNetworkRows (snd (pollFrom (networkRowsAttempt B) (wait B 250) n 0 s))
          = queries GetReplayNetworkRows s + Suc k)
   \<and> (emptyBefore (networkRowsAttempt B) (wait B 250) n s \<longrightarrow>
        pollFrom (networkRowsAttempt B) (wait B 250) n 0 s
          = (None, attemptState (networkRowsAttempt B) (wait B 250) n s)
        \<and> queries GetReplayNetworkRows (snd (pollFrom (networkRowsAttempt B) (wait B 250) n 0 s))
          = queries GetReplayNetworkRows s + n)"
  by (rule pollFrom_returns_first) simp_all

lemma errorLoop_returns_first:
  "(\<forall>k < 12. emptyBefore errorRowsAttempt (wait B 250) k (ensureReplayErrorsTabSelected B s)
        \<and> fst (errorRowsAttempt (attemptState errorRowsAttempt (wait B 250) k
                  (ensureReplayErrorsTabSelected B s))) \<noteq> None \<longrightarrow>
        apfst Some (getReplayErrorEventsFromDomWithRetry B s)
          = errorRowsAttempt (attemptState errorRowsAttempt (wait B 250) k
              (ensureReplayErrorsTabSelected B s)))
   \<and> (emptyBefore errorRowsAttempt (wait B 250) 12 (ensureReplayErrorsTabSelected B s) \<longrightarrow>
        getReplayErrorEventsFromDomWithRetry B s
          = ([], attemptState errorRowsAttempt (wait B 250) 12 (ensureReplayErrorsTabSelected B s)))"
proof (intro conjI allI impI)
  fix k
  assume k: "k < 12"
    and h: "emptyBefore errorRowsAttempt (wait B 250) k (ensureReplayErrorsTabSelected B s)
        \<and> fst (errorRowsAttempt (attemptState errorRowsAttempt (wait B 250) k
                  (ensureReplayErrorsTabSelected B s))) \<noteq> None"
  let ?r = "errorRowsAttempt (attemptState errorRowsAttempt (wait B 250) k
              (ensureReplayErrorsTabSelected B s))"
  from k h pollFrom_first_nonempty [of k 12 0 errorRowsAttempt "wait B 250"
      "ensureReplayErrorsTabSelected B s"]
  have "pollFrom errorRowsAttempt (wait B 250) 12 0 (ensureReplayErrorsTabSelected B s) = ?r"
    by simp
  moreover from h obtain rows s' where "?r = (Some rows, s')"
    by (cases ?r) auto
  ultimately show "apfst Some (getReplayErrorEventsFromDomWithRetry B s) = ?r"
    by (simp add: getReplayErrorEventsFromDomWithRetry_def)
next
  assume "emptyBefore errorRowsAttempt (wait B 250) 12 (ensureReplayErrorsTabSelected B s)"
  with pollFrom_all_empty [of errorRowsAttempt "wait B 250" 12 0 "ensureReplayErrorsTabSelected B s"]
  show "getReplayErrorEventsFromDomWithRetry B s
          = ([], attemptState errorRowsAttempt (wait B 250) 12 (ensureReplayErrorsTabSelected B s))"
    by (simp add: getReplayErrorEventsFromDomWithRetry_def)
qed

lemma networkLoop_returns_first:
  "(\<forall>k < 12. emptyBefore (networkRowsAttempt B) (wait B 250) k (ensureReplayNetworkTabSelected B s)
        \<and> fst (networkRowsAttempt B (attemptState (networkRowsAttempt B) (wait B 250) k
                  (ensureReplayNetworkTabSelected B s))) \<noteq> None \<longrightarrow>
        apfst Some (getReplayNetworkEventsFromDomWithRetry B s)
          = networkRowsAttempt B (attemptState (networkRowsAttempt B) (wait B 250) k
              (ensureReplayNetworkTabSelected B s)))
   \<and> (emptyBefore (networkRowsAttempt B) (wait B 250) 12 (ensureReplayNetworkTabSelected B s) \<longrightarrow>
        getReplayNetworkEventsFromDomWithRetry B s
          = ([], attemptState (networkRowsAttempt B) (wait B 250) 12
                   (ensureReplayNetworkTabSelected B s)))"
proof (intro conjI allI impI)
  fix k
  assume k: "k < 12"
    and h: "emptyBefore (networkRowsAttempt B) (wait B 250) k (ensureReplayNetworkTabSelected B s)
        \<and> fst (networkRowsAttempt B (attemptState (networkRowsAttempt B) (wait B 250) k
                  (ensureReplayNetworkTabSelected B s))) \<noteq> None"
  let ?r = "networkRowsAttempt B (attemptState (networkRowsAttempt B) (wait B 250) k
              (ensureReplayNetworkTabSelected B s))"
  from k h pollFrom_first_nonempty [of k 12 0 "networkRowsAttempt B" "wait B 250"
      "ensureReplayNetworkTabSelected B s"]
  have "pollFrom (networkRowsAttempt B) (wait B 250) 12 0 (ensureReplayNetworkTabSelected B s) = ?r"
    by simp
  moreover from h obtain rows s' where "?r = (Some rows, s')"
    by (cases ?r) auto
  ultimately show "apfst Some (getReplayNetworkEventsFromDomWithRetry B s) = ?r"
    by (simp add: getReplayNetworkEventsFromDomWithRetry_def)
next
  assume "emptyBefore (networkRowsAttempt B) (wait B 250) 12 (ensureReplayNetworkTabSelected B s)"
  with pollFrom_all_empty [of "networkRowsAttempt B" "wait B 250" 12 0
      "ensureReplayNetworkTabSelected B s"]
  show "getReplayNetworkEventsFromDomWithRetry B s
          = ([], attemptState (networkRowsAttempt B) (wait B 250) 12
                   (ensureReplayNetworkTabSelected B s))"
    by (simp add: getReplayNetworkEventsFromDomWithRetry_def)
qed

lemma rendering_first_three_empty:
  "emptyBefore extractReplayFromDom (wait renderingBrowser 250) 3 (start blankPage)"
  by code_simp

lemma rendering_fourth_nonempty:
  "fst (extractReplayFromDom
          (attemptState extractReplayFromDom (wait renderingBrowser 250) 3 (start blankPage)))
     = Some (resolution SourceDom exampleLink)"
  by code_simp

lemma idle_all_empty:
  "emptyBefore extractReplayFromDom (wait idleBrowser 250) 5 (start blankPage)"
  by code_simp

text \<open>
  C5. The replay-link loop runs its producing step, \<open>extractReplayFromDom\<close>, at most 8 times,
  and the error-row and network-row loops query the rows at most 12 times. For every number
  of attempts and each of the three producing steps: the loop runs the step at most that
  often; when attempt \<open>k\<close> is the first whose step yields a result, the loop returns that
  result in the state that run left, after \<open>k + 1\<close> runs, so nothing runs after the step
  that produced it; when no attempt yields a result, the loop returns the empty result, not
  an error, after exactly that many runs. The three loops of the source are the instances
  with 8, 12 and 12 attempts; the row loops return the merged rows of the run that produced
  them, or the empty list.
\<close>

theorem polling_stays_within_its_attempts:
  "queries ExtractReplayFromDom (snd (extractReplayFromDomWithRetry B s))
      \<le> queries ExtractReplayFromDom s + 8
   \<and> queries GetReplayErrorRows (snd (getReplayErrorEventsFromDomWithRetry B s))
      \<le> queries GetReplayErrorRows s + 12
   \<and> queries GetReplayNetworkRows (snd (getReplayNetworkEventsFromDomWithRetry B s))
      \<le> queries GetReplayNetworkRows s + 12
   \<and> (let r = pollFrom extractReplayFromDom (wait B 250) maxAttempts 0 s
      in queries ExtractReplayFromDom (snd r) \<le> queries ExtractReplayFromDom s + maxAttempts
         \<and> (fst r = None \<longrightarrow>
              queries ExtractReplayFromDom (snd r) = queries ExtractReplayFromDom s + maxAttempts)
         \<and> (\<forall>x. fst r = Some x \<longrightarrow> (\<exists>s0. extractReplayFromDom s0 = (Some x, snd r))))
   \<and> (let r = pollFrom errorRowsAttempt (wait B 250) maxAttempts 0 s
      in queries GetReplayErrorRows (snd r) \<le> queries GetReplayErrorRows s + maxAttempts
         \<and> (fst r = None \<longrightarrow>
              queries GetReplayErrorRows (snd r) = queries GetReplayErrorRows s + maxAttempts)
         \<and> (\<forall>x. fst r = Some x \<longrightarrow> (\<exists>s0. errorRowsAttempt s0 = (Some x, snd r))))
   \<and> (let r = pollFrom (networkRowsAttempt B) (wait B 250) maxAttempts 0 s
      in queries GetReplayNetworkRows (snd r) \<le> queries GetReplayNetworkRows s + maxAttempts
         \<and> (fst r = None \<longrightarrow>
              queries GetReplayNetworkRows (snd r) = queries GetReplayNetworkRows s + maxAttempts)
         \<and> (\<forall>x. fst r = Some x \<longrightarrow> (\<exists>s0. networkRowsAttempt B s0 = (Some x, snd r))))
   \<and> (\<forall>k < maxAttempts.
        emptyBefore extractReplayFromDom (wait B 250) k s
        \<and> fst (extractReplayFromDom (attemptState extractReplayFromDom (wait B 250) k s)) \<noteq> None \<longrightarrow>
        pollFrom extractReplayFromDom (wait B 250) maxAttempts 0 s
          = extractReplayFromDom (attemptState extractReplayFromDom (wait B 250) k s)
        \<and> queries ExtractReplayFromDom (snd (pollFrom extractReplayFromDom (wait B 250) maxAttempts 0 s))
          = queries ExtractReplayFromDom s + Suc k)
   \<and> (emptyBefore extractReplayFromDom (wait B 250) maxAttempts s \<longrightarrow>
        pollFrom extractReplayFromDom (wait B 250) maxAttempts 0 s
          = (None, attemptState extractReplayFromDom (wait B 250) maxAttempts s)
        \<and> queries ExtractReplayFromDom (snd (pollFrom extractReplayFromDom (wait B 250) maxAttempts 0 s))
          = queries ExtractReplayFromDom s + maxAttempts)
   \<and> (\<forall>k < maxAttempts.
        emptyBefore errorRowsAttempt (wait B 250) k s
        \<and> fst (errorRowsAttempt (attemptState errorRowsAttempt (wait B 250) k s)) \<noteq> None \<longrightarrow>
        pollFrom errorRowsAttempt (wait B 250) maxAttempts 0 s
          = errorRowsAttempt (attemptState errorRowsAttempt (wait B 250) k s)
        \<and> queries GetReplayErrorRows (snd (pollFrom errorRowsAttempt (wait B 250) maxAttempts 0 s))
          = queries GetReplayErrorRows s + Suc k)
   \<and> (emptyBefore errorRowsAttempt (wait B 250) maxAttempts s \<longrightarrow>
        pollFrom errorRowsAttempt (wait B 250) maxAttempts 0 s
          = (None, attemptState errorRowsAttempt (wait B 250) maxAttempts s)
        \<and> queries GetReplayErrorRows (snd (pollFrom errorRowsAttempt (wait B 250) maxAttempts 0 s))
          = queries GetReplayErrorRows s + maxAttempts)
   \<and> (\<forall>k < maxAttempts.
        emptyBefore (networkRowsAttempt B) (wait B 250) k s
        \<and> fst (networkRowsAttempt B (attemptState (networkRowsAttempt B) (wait B 250) k s)) \<noteq> None \<longrightarrow>
        pollFrom (networkRowsAttempt B) (wait B 250) maxAttempts 0 s
          = networkRowsAttempt B (attemptState (networkRowsAttempt B) (wait B 250) k s)
        \<and> queries GetReplayNetworkRows (snd (pollFrom (networkRowsAttempt B) (wait B 250) maxAttempts 0 s))
          = queries GetReplayNetworkRows s + Suc k)
   \<and> (emptyBefore (networkRowsAttempt B) (wait B 250) maxAttempts s \<longrightarrow>
        pollFrom (networkRowsAttempt B) (wait B 250) maxAttempts 0 s
          = (None, attemptState (networkRowsAttempt B) (wait B 250) maxAttempts s)
        \<and> queries GetReplayNetworkRows (snd (pollFrom (networkRowsAttempt B) (wait B 250) maxAttempts 0 s))
          = queries GetReplayNetworkRows s + maxAttempts)
   \<and> extractReplayFromDomWithRetry B s = pollFrom extractReplayFromDom (wait B 250) 8 0 s
   \<and> (\<forall>k < 12.
        emptyBefore errorRowsAttempt (wait B 250) k (ensureReplayErrorsTabSelected B s)
        \<and> fst (errorRowsAttempt (attemptState errorRowsAttempt (wait B 250) k (ensureReplayErrorsTabSelected B s))) \<noteq> None \<longrightarrow>
        apfst Some (getReplayErrorEventsFromDomWithRetry B s) = errorRowsAttempt (attemptState errorRowsAttempt (wait B 250) k (ensureReplayErrorsTabSelected B s)))
   \<and> (emptyBefore errorRowsAttempt (wait B 250) 12 (ensureReplayErrorsTabSelected B s) \<longrightarrow>
        getReplayErrorEventsFromDomWithRetry B s = ([], attemptState errorRowsAttempt (wait B 250) 12 (ensureReplayErrorsTabSelected B s)))
   \<and> (\<forall>k < 12.
        emptyBefore (networkRowsAttempt B) (wait B 250) k (ensureReplayNetworkTabSelected B s)
        \<and> fst (networkRowsAttempt B (attemptState (networkRowsAttempt B) (wait B 250) k (ensureReplayNetworkTabSelected B s))) \<noteq> None \<longrightarrow>
        apfst Some (getReplayNetworkEventsFromDomWithRetry B s) = networkRowsAttempt B (attemptState (networkRowsAttempt B) (wait B 250) k (ensureReplayNetworkTabSelected B s)))
   \<and> (emptyBefore (networkRowsAttempt B) (wait B 250) 12 (ensureReplayNetworkTabSelected B s) \<longrightarrow>
        getReplayNetworkEventsFromDomWithRetry B s = ([], attemptState (networkRowsAttempt B) (wait B 250) 12 (ensureReplayNetworkTabSelected B s)))"
  apply (intro conjI)
  subgoal using linkPoll_counts [of B 8 0 s] by (simp add: extractReplayFromDomWithRetry_def)
  subgoal using errorPoll_counts [of B 12 0 "ensureReplayErrorsTabSelected B s"]
    by (simp add: errorLoop_state)
  subgoal using networkPoll_counts [of B 12 0 "ensureReplayNetworkTabSelected B s"]
    by (simp add: networkLoop_state)
  subgoal using linkPoll_counts [of B maxAttempts 0 s]
    by (auto simp: Let_def dest: pollFrom_from_attempt)
  subgoal using errorPoll_counts [of B maxAttempts 0 s]
    by (auto simp: Let_def dest: pollFrom_from_attempt)
  subgoal using networkPoll_counts [of B maxAttempts 0 s]
    by (auto simp: Let_def dest: pollFrom_from_attempt)
  subgoal by (rule linkPoll_returns_first [THEN conjunct1])
  subgoal by (rule linkPoll_returns_first [THEN conjunct2])
  subgoal by (rule errorPoll_returns_first [THEN conjunct1])
  subgoal by (rule errorPoll_returns_first [THEN conjunct2])
  subgoal by (rule networkPoll_returns_first [THEN conjunct1])
  subgoal by (rule networkPoll_returns_first [THEN conjunct2])
  subgoal by (simp add: extractReplayFromDomWithRetry_def)
  subgoal by (rule errorLoop_returns_first [THEN conjunct1])
  subgoal by (rule errorLoop_returns_first [THEN conjunct2])
  subgoal by (rule networkLoop_returns_first [THEN conjunct1])
  subgoal by (rule networkLoop_returns_first [THEN conjunct2])
  done

lemma errors_first_nonempty:
  "fst (errorRowsAttempt (start errorsPage)) = Some [timeoutRow]"
  by code_simp

lemma errorsLoop_first_nonempty:
  "fst (errorRowsAttempt (ensureReplayErrorsTabSelected idleBrowser (start errorsPage)))
     = Some [timeoutRow]"
  by code_simp

lemma blankPage_networkCandidates: "networkCandidates idleBrowser blankPage = []"
  by code_simp

lemma wait_idle_page: "current (wait idleBrowser ms s) = current s"
  by (simp add: wait_def idleBrowser_def)

lemma blank_network_all_empty:
  "current s = blankPage \<Longrightarrow>
     emptyBefore (networkRowsAttempt idleBrowser) (wait idleBrowser 250) k s"
  by (induction k arbitrary: s)
     (simp_all add: emptyBefore_Suc networkRowsAttempt_result blankPage_networkCandidates
        wait_idle_page)

lemma blankPage_network_tab:
  "current (ensureReplayNetworkTabSelected idleBrowser (start blankPage)) = blankPage"
  by (simp add: ensureReplayNetworkTabSelected_def case_prod_beta start_def blankPage_def
        split: option.split)

lemma start_queries: "queries q (start pg) = 0"
  by (simp add: queries_def start_def)

theorem polling_stays_within_its_attempts_witness:
  "(emptyBefore extractReplayFromDom (wait renderingBrowser 250) 3 (start blankPage)
    \<and> fst (extractReplayFromDom
            (attemptState extractReplayFromDom (wait renderingBrowser 250) 3 (start blankPage)))
        = Some (resolution SourceDom exampleLink)
    \<and> pollFrom extractReplayFromDom (wait renderingBrowser 250) 5 0 (start blankPage)
        = extractReplayFromDom
            (attemptState extractReplayFromDom (wait renderingBrowser 250) 3 (start blankPage))
    \<and> fst (pollFrom extractReplayFromDom (wait renderingBrowser 250) 5 0 (start blankPage))
        = Some (resolution SourceDom exampleLink)
    \<and> queries ExtractReplayFromDom
         (snd (pollFrom extractReplayFromDom (wait renderingBrowser 250) 5 0 (start blankPage))) = 4)
   \<and> (emptyBefore extractReplayFromDom (wait idleBrowser 250) 5 (start blankPage)
    \<and> pollFrom extractReplayFromDom (wait idleBrowser 250) 5 0 (start blankPage)
        = (None, attemptState extractReplayFromDom (wait idleBrowser 250) 5 (start blankPage))
    \<and> queries ExtractReplayFromDom
         (snd (pollFrom extractReplayFromDom (wait idleBrowser 250) 5 0 (start blankPage))) = 5)
   \<and> (pollFrom errorRowsAttempt (wait idleBrowser 250) 5 0 (start errorsPage)
        = errorRowsAttempt (start errorsPage)
    \<and> fst (pollFrom errorRowsAttempt (wait idleBrowser 250) 5 0 (start errorsPage))
        = Some [timeoutRow]
    \<and> queries GetReplayErrorRows
         (snd (pollFrom errorRowsAttempt (wait idleBrowser 250) 5 0 (start errorsPage))) = 1)
   \<and> (emptyBefore (networkRowsAttempt idleBrowser) (wait idleBrowser 250) 5 (start blankPage)
    \<and> fst (pollFrom (networkRowsAttempt idleBrowser) (wait idleBrowser 250) 5 0 (start blankPage))
        = None
    \<and> queries GetReplayNetworkRows
         (snd (pollFrom (networkRowsAttempt idleBrowser) (wait idleBrowser 250) 5 0 (start blankPage)))
        = 5)
   \<and> (fst (getReplayErrorEventsFromDomWithRetry idleBrowser (start errorsPage)) = [timeoutRow]
    \<and> snd (getReplayErrorEventsFromDomWithRetry idleBrowser (start errorsPage))
        = snd (errorRowsAttempt (ensureReplayErrorsTabSelected idleBrowser (start errorsPage))))
   \<and> (emptyBefore (networkRowsAttempt idleBrowser) (wait idleBrowser 250) 12
         (ensureReplayNetworkTabSelected idleBrowser (start blankPage))
    \<and> getReplayNetworkEventsFromDomWithRetry idleBrowser (start blankPage)
        = ([], attemptState (networkRowsAttempt idleBrowser) (wait idleBrowser 250) 12
                 (ensureReplayNetworkTabSelected idleBrowser (start blankPage))))"
proof -
  note rendering = polling_stays_within_its_attempts [of renderingBrowser "start blankPage" 5]
  note idle = polling_stays_within_its_attempts [of idleBrowser "start blankPage" 5]
  note errors = polling_stays_within_its_attempts [of idleBrowser "start errorsPage" 5]

  have a1: "emptyBefore extractReplayFromDom (wait renderingBrowser 250) 3 (start blankPage)"
    by (rule rendering_first_three_empty)
  have a2: "fst (extractReplayFromDom
            (attemptState extractReplayFromDom (wait renderingBrowser 250) 3 (start blankPage)))
        = Some (resolution SourceDom exampleLink)"
    by (rule rendering_fourth_nonempty)
  have "emptyBefore extractReplayFromDom (wait renderingBrowser 250) 3 (start blankPage)
      \<and> fst (extractReplayFromDom
            (attemptState extractReplayFromDom (wait renderingBrowser 250) 3 (start blankPage)))
       \<noteq> None"
    by (simp only: a1 a2) simp
  moreover have "(3::nat) < 5"
    by simp
  ultimately have link: "pollFrom extractReplayFromDom (wait renderingBrowser 250) 5 0 (start blankPage)
       = extractReplayFromDom
           (attemptState extractReplayFromDom (wait renderingBrowser 250) 3 (start blankPage))
     \<and> queries ExtractReplayFromDom
        (snd (pollFrom extractReplayFromDom (wait renderingBrowser 250) 5 0 (start blankPage)))
       = queries ExtractReplayFromDom (start blankPage) + Suc 3"
    by (rule rendering [THEN conjunct2, THEN conjunct2, THEN conjunct2, THEN conjunct2, THEN conjunct2,
      THEN conjunct2, THEN conjunct1, rule_format, of 3, rotated])
  from link have a3: "pollFrom extractReplayFromDom (wait renderingBrowser 250) 5 0 (start blankPage)
        = extractReplayFromDom
            (attemptState extractReplayFromDom (wait renderingBrowser 250) 3 (start blankPage))"
    by (rule conjunct1)
  have a4: "fst (pollFrom extractReplayFromDom (wait renderingBrowser 250) 5 0 (start blankPage))
        = Some (resolution SourceDom exampleLink)"
    by (simp only: a3 a2)
  from link [THEN conjunct2]
  have a5: "queries ExtractReplayFromDom
         (snd (pollFrom extractReplayFromDom (wait renderingBrowser 250) 5 0 (start blankPage))) = 4"
    by (simp add: start_queries)

  have b1: "emptyBefore extractReplayFromDom (wait idleBrowser 250) 5 (start blankPage)"
    by (rule idle_all_empty)
  note none = idle [THEN conjunct2, THEN conjunct2, THEN conjunct2, THEN conjunct2, THEN conjunct2,
      THEN conjunct2, THEN conjunct2, THEN conjunct1, rule_format, OF b1]
  from none have b2: "pollFrom extractReplayFromDom (wait idleBrowser 250) 5 0 (start blankPage)
        = (None, attemptState extractReplayFromDom (wait idleBrowser 250) 5 (start blankPage))"
    by (rule conjunct1)
  from none [THEN conjunct2]
  have b3: "queries ExtractReplayFromDom
         (snd (pollFrom extractReplayFromDom (wait idleBrowser 250) 5 0 (start blankPage))) = 5"
    by (simp add: start_queries)

  have "emptyBefore errorRowsAttempt (wait idleBrowser 250) 0 (start errorsPage)
      \<and> fst (errorRowsAttempt
               (attemptState errorRowsAttempt (wait idleBrowser 250) 0 (start errorsPage))) \<noteq> None"
    by (simp add: errors_first_nonempty)
  moreover have "(0::nat) < 5"
    by simp
  ultimately have rows: "pollFrom errorRowsAttempt (wait idleBrowser 250) 5 0 (start errorsPage)
        = errorRowsAttempt (attemptState errorRowsAttempt (wait idleBrowser 250) 0 (start errorsPage))
      \<and> queries GetReplayErrorRows
          (snd (pollFrom errorRowsAttempt (wait idleBrowser 250) 5 0 (start errorsPage)))
        = queries GetReplayErrorRows (start errorsPage) + Suc 0"
    by (rule errors [THEN conjunct2, THEN conjunct2, THEN conjunct2, THEN conjunct2, THEN conjunct2,
      THEN conjunct2, THEN conjunct2, THEN conjunct2, THEN conjunct1, rule_format,
      of 0, rotated])
  from rows [THEN conjunct1]
  have c1: "pollFrom errorRowsAttempt (wait idleBrowser 250) 5 0 (start errorsPage)
        = errorRowsAttempt (start errorsPage)"
    by simp
  have c2: "fst (pollFrom errorRowsAttempt (wait idleBrowser 250) 5 0 (start errorsPage))
        = Some [timeoutRow]"
    by (simp only: c1 errors_first_nonempty)
  from rows [THEN conjunct2]
  have c3: "queries GetReplayErrorRows
         (snd (pollFrom errorRowsAttempt (wait idleBrowser 250) 5 0 (start errorsPage))) = 1"
    by (simp add: start_queries)

  have d1: "emptyBefore (networkRowsAttempt idleBrowser) (wait idleBrowser 250) 5 (start blankPage)"
    by (rule blank_network_all_empty) (simp add: start_def)
  note quiet = idle [THEN conjunct2, THEN conjunct2, THEN conjunct2, THEN conjunct2, THEN conjunct2,
      THEN conjunct2, THEN conjunct2, THEN conjunct2, THEN conjunct2, THEN conjunct2,
      THEN conjunct2, THEN conjunct1, rule_format, OF d1]
  from quiet [THEN conjunct1]
  have d2: "fst (pollFrom (networkRowsAttempt idleBrowser) (wait idleBrowser 250) 5 0 (start blankPage))
        = None"
    by simp
  from quiet [THEN conjunct2]
  have d3: "queries GetReplayNetworkRows
         (snd (pollFrom (networkRowsAttempt idleBrowser) (wait idleBrowser 250) 5 0 (start blankPage)))
        = 5"
    by (simp add: start_queries)

  have "emptyBefore errorRowsAttempt (wait idleBrowser 250) 0
         (ensureReplayErrorsTabSelected idleBrowser (start errorsPage))
      \<and> fst (errorRowsAttempt
               (attemptState errorRowsAttempt (wait idleBrowser 250) 0
                  (ensureReplayErrorsTabSelected idleBrowser (start errorsPage)))) \<noteq> None"
    by (simp add: errorsLoop_first_nonempty)
  moreover have "(0::nat) < 12"
    by simp
  ultimately have "apfst Some (getReplayErrorEventsFromDomWithRetry idleBrowser (start errorsPage))
        = errorRowsAttempt (attemptState errorRowsAttempt (wait idleBrowser 250) 0
            (ensureReplayErrorsTabSelected idleBrowser (start errorsPage)))"
    by (rule errors [THEN conjunct2, THEN conjunct2, THEN conjunct2, THEN conjunct2, THEN conjunct2,
      THEN conjunct2, THEN conjunct2, THEN conjunct2, THEN conjunct2, THEN conjunct2,
      THEN conjunct2, THEN conjunct2, THEN conjunct2, THEN conjunct1, rule_format,
      of 0, rotated])
  then have loop: "apfst Some (getReplayErrorEventsFromDomWithRetry idleBrowser (start errorsPage))
        = errorRowsAttempt (ensureReplayErrorsTabSelected idleBrowser (start errorsPage))"
    by simp
  from arg_cong [OF loop, of fst]
  have e1: "fst (getReplayErrorEventsFromDomWithRetry idleBrowser (start errorsPage)) = [timeoutRow]"
    by (simp add: errorsLoop_first_nonempty)
  from arg_cong [OF loop, of snd]
  have e2: "snd (getReplayErrorEventsFromDomWithRetry idleBrowser (start errorsPage))
        = snd (errorRowsAttempt (ensureReplayErrorsTabSelected idleBrowser (start errorsPage)))"
    by simp

  have f1: "emptyBefore (networkRowsAttempt idleBrowser) (wait idleBrowser 250) 12
         (ensureReplayNetworkTabSelected idleBrowser (start blankPage))"
    by (rule blank_network_all_empty) (rule blankPage_network_tab)
  note f2 = idle [THEN conjunct2, THEN conjunct2, THEN conjunct2, THEN conjunct2, THEN conjunct2,
      THEN conjunct2, THEN conjunct2, THEN conjunct2, THEN conjunct2, THEN conjunct2,
      THEN conjunct2, THEN conjunct2, THEN conjunct2, THEN conjunct2, THEN conjunct2,
      THEN conjunct2, rule_format, OF f1]

  show ?thesis
    by (intro conjI) (fact a1 a2 a3 a4 a5 b1 b2 b3 c1 c2 c3 d1 d2 d3 e1 e2 f1 f2)+
qed

section \<open>Replay resolution\<close>

lemma organizationReplayPage_context:
  "getPageContext Some organizationReplayPage =
     \<lparr>origin = ''https://acme.sentry.io'', organizationSlug = Some ''acme'',
      issueId = None, replayId = Some ''abc123'', pageType = Replay\<rparr>"
  unfolding organizationReplayPage_def blankPage_def by code_simp

lemma linkedIssuePage_context:
  "getPageContext Some linkedIssuePage =
     \<lparr>origin = ''https://acme.sentry.io'', organizationSlug = Some ''acme'',
      issueId = Some ''123'', replayId = None, pageType = Issue\<rparr>"
  unfolding linkedIssuePage_def issuePage_def blankPage_def by code_simp

text \<open>
  C3, as the spec words it: the replay URL is synthesized from origin, organization slug and
  replay id. On \<open>replayPage\<close> the context has a replay id and no organization slug, and the
  URL returned is the address of the page, query string and all.
\<close>

theorem replay_url_is_the_page_address:
  "replayId (getPageContext Some replayPage) = Some ''abc123''
   \<and> organizationSlug (getPageContext Some replayPage) = None
   \<and> map_sum id resolvedReplayUrl
        (fst (resolveReplay idleBrowser (getPageContext Some replayPage) (start replayPage)))
       = Inr ''https://acme.sentry.io/replays/abc123/?t=12''"
  by (simp add: replayPage_context resolveReplay_def truthy_def orNull_def start_def)
     (simp add: replayPage_def blankPage_def)

text \<open>
  C3, amended. For a page context with a replay id (not empty), replay resolution returns at
  once with source \<open>url\<close> and leaves the state as it was: no remote call, no DOM query, no
  wait, no click. The replay URL is synthesized from origin, organization slug and replay id
  when the context has an organization slug, and is the address of the page otherwise.
\<close>

theorem replay_id_in_context_resolves_at_once:
  "replayId ctx = Some rid \<Longrightarrow> rid \<noteq> [] \<Longrightarrow>
     resolveReplay B ctx s =
       (Inr \<lparr>resolvedReplayId = rid,
              resolvedReplayUrl =
                (case orNull (organizationSlug ctx) of
                   Some slug \<Rightarrow> origin ctx @ ''/organizations/'' @ slug @ ''/replays/'' @ rid @ ''/''
                 | None \<Rightarrow> locationHref (current s)),
              resolvedSource = SourceUrl\<rparr>, s)"
  by (simp add: resolveReplay_def truthy_def orNull_def orEmpty_def replayUrlOf_def
        split: option.split)

theorem replay_id_in_context_resolves_at_once_witness:
  "resolveReplay idleBrowser (getPageContext Some organizationReplayPage) (start organizationReplayPage)
     = (Inr \<lparr>resolvedReplayId = ''abc123'',
              resolvedReplayUrl = ''https://acme.sentry.io/organizations/acme/replays/abc123/'',
              resolvedSource = SourceUrl\<rparr>, start organizationReplayPage)
   \<and> resolveReplay idleBrowser (getPageContext Some replayPage) (start replayPage)
     = (Inr \<lparr>resolvedReplayId = ''abc123'',
              resolvedReplayUrl = ''https://acme.sentry.io/replays/abc123/?t=12'',
              resolvedSource = SourceUrl\<rparr>, start replayPage)"
  using replay_id_in_context_resolves_at_once
          [of "getPageContext Some organizationReplayPage" "''abc123''" idleBrowser
              "start organizationReplayPage"]
        replay_id_in_context_resolves_at_once
          [of "getPageContext Some replayPage" "''abc123''" idleBrowser "start replayPage"]
  by (simp add: organizationReplayPage_context replayPage_context orNull_def start_def)
     (simp add: replayPage_def blankPage_def)

section \<open>Errors of the last resolution state\<close>

lemma resolveReplay_precondition_error:
  assumes "\<not> truthy (replayId ctx)"
      and "extractReplayFromDomWithRetry B s0 = (None, s1)"
      and "extractReplayByClickingCta B s1 = (None, s2)"
      and "\<not> truthy (issueId ctx) \<or> \<not> truthy (organizationSlug ctx)"
  shows "resolveReplay B ctx s0 =
           (Inl (if \<not> truthy (issueId ctx) then ''No replay found on this page.''
                 else ''No replay link found in DOM for this issue.''), s2)"
  using assms
  by (auto simp: resolveReplay_def assertOrganization_def truthy_def split: option.splits)

lemma bareIssue_context_read:
  "fst (getPageContextOf idleBrowser (start bareIssuePage)) = getPageContext Some bareIssuePage"
  by (simp add: getPageContextOf_def idleBrowser_def start_def)

lemma bareIssue_no_link:
  "fst (extractReplayFromDomWithRetry idleBrowser
          (snd (getPageContextOf idleBrowser (start bareIssuePage)))) = None"
  by code_simp

lemma bareIssue_no_click:
  "fst (extractReplayByClickingCta idleBrowser
          (snd (extractReplayFromDomWithRetry idleBrowser
             (snd (getPageContextOf idleBrowser (start bareIssuePage)))))) = None"
  by code_simp

text \<open>
  C4. When replay resolution comes to its last state (the context has no replay id, the
  DOM poll and the click found nothing) and the issue id or the organization slug is
  missing, the three actions that resolve a replay answer \<open>{ok: false, error}\<close> with the
  message of the error raised: nothing catches it on the way.
\<close>

theorem api_state_precondition_error_reaches_envelope:
  assumes "getPageContextOf B s = (ctx, s0)"
      and "\<not> truthy (replayId ctx)"
      and "extractReplayFromDomWithRetry B s0 = (None, s1)"
      and "extractReplayByClickingCta B s1 = (None, s2)"
      and "\<not> truthy (issueId ctx) \<or> \<not> truthy (organizationSlug ctx)"
      and "action \<in> {''openReplay'', ''getReplayErrors'', ''getReplayNetworkErrors''}"
  shows "onMessage B (actionMessage action) s =
           (Some \<lparr>ok = False,
                  error = Some (if \<not> truthy (issueId ctx) then ''No replay found on this page.''
                                else ''No replay link found in DOM for this issue.''),
                  payload = None\<rparr>, s2)"
proof -
  let ?msg = "if \<not> truthy (issueId ctx) then ''No replay found on this page.''
              else ''No replay link found in DOM for this issue.''"
  have r: "resolveReplay B ctx s0 = (Inl ?msg, s2)"
    by (rule resolveReplay_precondition_error) (rule assms)+
  have "runAction B action s = (Inl ?msg, s2)"
    using assms(1,6) r
    by (auto simp: runAction_def lift_def handleOpenReplay_def handleReplayErrors_def
          handleReplayNetworkErrors_def)
  then show ?thesis
    using assms(6) by (auto simp: onMessage_def actionMessage_def truthy_def orNull_def orEmpty_def)
qed

theorem api_state_precondition_error_reaches_envelope_witness:
  "fst (onMessage idleBrowser (actionMessage ''getReplayErrors'') (start bareIssuePage))
     = Some \<lparr>ok = False, error = Some ''No replay link found in DOM for this issue.'',
             payload = None\<rparr>"
proof -
  let ?s0 = "snd (getPageContextOf idleBrowser (start bareIssuePage))"
  let ?s1 = "snd (extractReplayFromDomWithRetry idleBrowser ?s0)"
  let ?s2 = "snd (extractReplayByClickingCta idleBrowser ?s1)"
  let ?ctx = "getPageContext Some bareIssuePage"
  have h1: "getPageContextOf idleBrowser (start bareIssuePage) = (?ctx, ?s0)"
    using bareIssue_context_read by (simp add: prod_eq_iff)
  have h2: "\<not> truthy (replayId ?ctx)"
    by (simp add: bareIssuePage_context truthy_def orNull_def)
  have h3: "extractReplayFromDomWithRetry idleBrowser ?s0 = (None, ?s1)"
    using bareIssue_no_link by (simp add: prod_eq_iff)
  have h4: "extractReplayByClickingCta idleBrowser ?s1 = (None, ?s2)"
    using bareIssue_no_click by (simp add: prod_eq_iff)
  have h5: "\<not> truthy (issueId ?ctx) \<or> \<not> truthy (organizationSlug ?ctx)"
    by (simp add: bareIssuePage_context truthy_def orNull_def)
  have h6: "''getReplayErrors'' \<in> {''openReplay'', ''getReplayErrors'', ''getReplayNetworkErrors''}"
    by simp
  from api_state_precondition_error_reaches_envelope [OF h1 h2 h3 h4 h5 h6]
  show ?thesis
    by (simp add: bareIssuePage_context truthy_def orNull_def)
qed

section \<open>Network errors away from a replay page\<close>

text \<open>
  C10. When the page is not a replay page and replay resolution succeeds, the network
  action returns \<open>shouldOpenReplay = true\<close>, both totals 0 and no network errors, in the state
  replay resolution left: it queries no row of the network tab and makes no remote call.
\<close>

theorem network_errors_off_replay_page:
  "pageType ctx \<noteq> Replay \<Longrightarrow> resolveReplay B ctx s = (Inr replay, s1) \<Longrightarrow>
     handleReplayNetworkErrors B ctx s =
       (Inr \<lparr>netReplayId = resolvedReplayId replay,
              netReplayUrl = resolvedReplayUrl replay,
              netSource = resolvedSource replay,
              shouldOpenReplay = True,
              totalNetworkRequests = 0,
              totalNetworkErrors = 0,
              networkErrors = [],
              requestLinks = None,
              networkDataSource = ''dom'',
              replyNote = Some (''Replay tab opened. Run this action again on the replay page '' @
                                ''to extract network errors.''),
              debugInfo = None\<rparr>, s1)"
  by (simp add: handleReplayNetworkErrors_def)

lemma linkedIssue_resolved:
  "fst (resolveReplay idleBrowser (getPageContext Some linkedIssuePage) (start linkedIssuePage))
     = Inr (resolution SourceDom exampleLink)"
  unfolding linkedIssuePage_context by code_simp

theorem network_errors_off_replay_page_witness:
  "pageType (getPageContext Some linkedIssuePage) \<noteq> Replay
   \<and> map_sum id (\<lambda>r. (shouldOpenReplay r, totalNetworkRequests r, totalNetworkErrors r,
                         networkErrors r, netSource r))
        (fst (handleReplayNetworkErrors idleBrowser (getPageContext Some linkedIssuePage)
                (start linkedIssuePage)))
       = Inr (True, 0, 0, [], SourceDom)
   \<and> snd (handleReplayNetworkErrors idleBrowser (getPageContext Some linkedIssuePage)
            (start linkedIssuePage))
       = snd (resolveReplay idleBrowser (getPageContext Some linkedIssuePage) (start linkedIssuePage))"
proof -
  let ?ctx = "getPageContext Some linkedIssuePage"
  let ?r = "resolveReplay idleBrowser ?ctx (start linkedIssuePage)"
  have h1: "pageType ?ctx \<noteq> Replay"
    by (simp add: linkedIssuePage_context)
  have h2: "?r = (Inr (resolution SourceDom exampleLink), snd ?r)"
    using linkedIssue_resolved by (simp add: prod_eq_iff)
  from network_errors_off_replay_page [OF h1 h2] h1 show ?thesis
    by (simp add: resolution_def)
qed

section \<open>Writes to the page\<close>


lemma ensureErrorsTab_writes:
  "writes (ensureReplayErrorsTabSelected B s) = writes s @ tabClick ErrorsTab (errorsTabElement (current s))"
  by (simp add: ensureReplayErrorsTabSelected_def tabClick_def case_prod_beta split: option.split)


lemma errorRowsAttempt_writes [simp]: "writes (snd (errorRowsAttempt s)) = writes s"
  by (simp add: errorRowsAttempt_def Let_def case_prod_beta)

lemma networkRowsAttempt_writes [simp]: "writes (snd (networkRowsAttempt B s)) = writes s"
  by (simp add: networkRowsAttempt_def Let_def case_prod_beta)


lemma errorLoop_writes:
  "writes (snd (getReplayErrorEventsFromDomWithRetry B s))
     = writes s @ tabClick ErrorsTab (errorsTabElement (current s))"
  by (simp add: errorLoop_state pollFrom_keeps ensureErrorsTab_writes)







lemma fetchReplayDetails_writes [simp]:
  "writes (snd (fetchReplayDetails B ctx rid names s)) = writes s"
  by (simp add: fetchReplayDetails_def case_prod_beta split: option.split sum.split)

lemma fetchReplayDetails_page_tab:
  "writes (snd (getReplayErrorEventsFromDomWithRetry B (snd (fetchReplayDetails B ctx rid names s))))
     = writes s @ tabClick ErrorsTab
         (errorsTabElement (current (snd (fetchReplayDetails B ctx rid names s))))"
  by (simp add: errorLoop_writes)

lemma getReplayErrorEvents_writes [simp]:
  "writes (snd (getReplayErrorEvents B ctx rid s)) = writes s"
  by (simp add: getReplayErrorEvents_def case_prod_beta split: sum.split)

lemma apiSegments_writes [simp]:
  "writes (snd (getReplayNetworkEventsFromApiSegments B ctx slug rid pr s)) = writes s"
  by (simp add: getReplayNetworkEventsFromApiSegments_def case_prod_beta split: sum.split)

lemma getLatestIssueEvent_writes [simp]:
  "writes (snd (getLatestIssueEvent B ctx s)) = writes s"
  by (simp add: getLatestIssueEvent_def split: sum.split)






lemma lift_state [simp]: "snd (lift wrap r) = snd r"
  by (simp add: lift_def)






end
